theory Spec2Isabelle
  imports Complex_Main
begin

section \<open>True Skate map exporter: data model\<close>

text \<open>
  The development follows \<^verbatim>\<open>src/exporter.py\<close>. Python floats are
  modelled as \<^typ>\<open>real\<close> (exact arithmetic: rounding, overflow and NaN are
  outside the model), Python integers as \<^typ>\<open>int\<close>, and the exceptions the
  code can raise on well-typed input as values of \<open>py_error\<close>.
\<close>

datatype py_error = ZeroDivisionError | KeyError string

text \<open>
  \<^verbatim>\<open>class Vertex\<close>: position, normal, UV and colour. The fields are
  \<^verbatim>\<open>x y z nx ny nz u v r g b a\<close> in the source; they carry the prefix
  \<open>v_\<close> here.
\<close>

record vertex =
  v_x :: real
  v_y :: real
  v_z :: real
  v_nx :: real
  v_ny :: real
  v_nz :: real
  v_u :: real
  v_v :: real
  v_r :: int
  v_g :: int
  v_b :: int
  v_a :: int

text \<open>
  The call \<^verbatim>\<open>Vertex(x=.., y=.., z=.., nx=.., ny=.., nz=.., u=.., v=..)\<close>
  used by every generator: the colour fields take their default 255.
\<close>

definition Vertex :: "real \<Rightarrow> real \<Rightarrow> real \<Rightarrow> real \<Rightarrow> real \<Rightarrow> real \<Rightarrow> real \<Rightarrow> real \<Rightarrow> vertex" where
  "Vertex x y z nx ny nz u v =
     \<lparr>v_x = x, v_y = y, v_z = z, v_nx = nx, v_ny = ny, v_nz = nz, v_u = u, v_v = v,
      v_r = 255, v_g = 255, v_b = 255, v_a = 255\<rparr>"

text \<open>\<^verbatim>\<open>class Mesh\<close>: vertices, a flat list of triangle indices, a material index.\<close>

record mesh =
  vertices :: "vertex list"
  indices :: "int list"
  material_index :: int

text \<open>
  The mesh under construction inside a generator: the local lists
  \<^verbatim>\<open>vertices\<close> and \<^verbatim>\<open>indices\<close> that the loops append to.
\<close>

type_synonym mesh_acc = "vertex list \<times> int list"

section \<open>Object generators\<close>

subsection \<open>\<^verbatim>\<open>generate_box\<close>\<close>

definition box_faces :: "(nat list \<times> (real \<times> real \<times> real)) list" where
  "box_faces =
     [([0, 1, 2, 3], (0, 0, -1)),
      ([5, 4, 7, 6], (0, 0, 1)),
      ([4, 0, 3, 7], (-1, 0, 0)),
      ([1, 5, 6, 2], (1, 0, 0)),
      ([3, 2, 6, 7], (0, 1, 0)),
      ([4, 5, 1, 0], (0, -1, 0))]"

text \<open>The inner loop over \<^verbatim>\<open>enumerate(face_corners)\<close>: one vertex per corner.\<close>

definition box_face_vertices ::
  "(real \<times> real \<times> real) list \<Rightarrow> nat list \<Rightarrow> (real \<times> real \<times> real) \<Rightarrow> vertex list" where
  "box_face_vertices corners face_corners normal =
     map (\<lambda>(i, ci).
            let c = corners ! ci;
                u = (if i \<in> set [1, 2] then 1 else 0);
                v = (if i \<in> set [2, 3] then 1 else 0)
            in Vertex (fst c) (fst (snd c)) (snd (snd c))
                      (fst normal) (fst (snd normal)) (snd (snd normal)) u v)
         (enumerate 0 face_corners)"

text \<open>The body of the loop over the faces; \<open>base\<close> is \<^verbatim>\<open>len(vertices)\<close> on entry.\<close>

definition box_face_step ::
  "(real \<times> real \<times> real) list \<Rightarrow> mesh_acc \<Rightarrow> nat list \<times> (real \<times> real \<times> real) \<Rightarrow> mesh_acc" where
  "box_face_step corners acc face =
     (case acc of (verts, idxs) \<Rightarrow>
      case face of (face_corners, normal) \<Rightarrow>
        let base = int (length verts)
        in (verts @ box_face_vertices corners face_corners normal,
            idxs @ [base, base + 1, base + 2, base, base + 2, base + 3]))"

definition box_corners ::
  "real \<Rightarrow> real \<Rightarrow> real \<Rightarrow> real \<Rightarrow> real \<Rightarrow> real \<Rightarrow> (real \<times> real \<times> real) list" where
  "box_corners hw hh hd' offset_x offset_y offset_z =
     [(- hw + offset_x, - hh + offset_y, - hd' + offset_z),
      (  hw + offset_x, - hh + offset_y, - hd' + offset_z),
      (  hw + offset_x,   hh + offset_y, - hd' + offset_z),
      (- hw + offset_x,   hh + offset_y, - hd' + offset_z),
      (- hw + offset_x, - hh + offset_y,   hd' + offset_z),
      (  hw + offset_x, - hh + offset_y,   hd' + offset_z),
      (  hw + offset_x,   hh + offset_y,   hd' + offset_z),
      (- hw + offset_x,   hh + offset_y,   hd' + offset_z)]"

definition generate_box :: "real \<Rightarrow> real \<Rightarrow> real \<Rightarrow> real \<Rightarrow> real \<Rightarrow> real \<Rightarrow> mesh" where
  "generate_box width height depth offset_x offset_y offset_z =
     (let hw = width / 2; hh = height / 2; hd' = depth / 2;
          corners = box_corners hw hh hd' offset_x offset_y offset_z;
          acc = foldl (box_face_step corners) ([], []) box_faces
      in \<lparr>vertices = fst acc, indices = snd acc, material_index = 0\<rparr>)"

subsection \<open>\<^verbatim>\<open>generate_quarter_pipe\<close>\<close>

text \<open>
  The profile point of step \<open>i\<close>: \<^verbatim>\<open>angle = (math.pi / 2) * (i / segments)\<close>,
  \<^verbatim>\<open>x = radius * (1 - math.cos(angle))\<close>, \<^verbatim>\<open>y = radius * math.sin(angle)\<close>.
\<close>

definition quarter_pipe_angle :: "int \<Rightarrow> nat \<Rightarrow> real" where
  "quarter_pipe_angle segments i = (pi / 2) * (real i / real_of_int segments)"

definition quarter_pipe_x :: "real \<Rightarrow> int \<Rightarrow> nat \<Rightarrow> real" where
  "quarter_pipe_x radius segments i = radius * (1 - cos (quarter_pipe_angle segments i))"

definition quarter_pipe_y :: "real \<Rightarrow> int \<Rightarrow> nat \<Rightarrow> real" where
  "quarter_pipe_y radius segments i = radius * sin (quarter_pipe_angle segments i)"

text \<open>The two vertices (left edge, right edge) appended by step \<open>i\<close> of the first loop.\<close>

definition quarter_pipe_surface :: "real \<Rightarrow> real \<Rightarrow> int \<Rightarrow> nat \<Rightarrow> vertex list" where
  "quarter_pipe_surface radius width segments i =
     (let angle = quarter_pipe_angle segments i;
          x = quarter_pipe_x radius segments i;
          y = quarter_pipe_y radius segments i;
          nx = - cos angle;
          ny = sin angle;
          u = real i / real_of_int segments
      in [Vertex (x - radius) y (- width / 2) nx ny 0 u 0,
          Vertex (x - radius) y (width / 2) nx ny 0 u 1])"

text \<open>The vertex appended by step \<open>i\<close> of a side-panel loop, at depth \<open>z\<close> with normal \<open>nz\<close>.\<close>

definition quarter_pipe_side :: "real \<Rightarrow> int \<Rightarrow> real \<Rightarrow> real \<Rightarrow> nat \<Rightarrow> vertex" where
  "quarter_pipe_side radius segments z nz i =
     (let x = quarter_pipe_x radius segments i;
          y = quarter_pipe_y radius segments i
      in Vertex (x - radius) y z 0 0 nz (x / radius) (y / radius))"

text \<open>
  Python raises \<^verbatim>\<open>ZeroDivisionError\<close> on \<^verbatim>\<open>i / segments\<close> when
  \<^verbatim>\<open>segments\<close> is 0 (the first loop runs once, over \<^verbatim>\<open>range(1)\<close>), and on
  \<^verbatim>\<open>x / radius\<close> in the side loops when \<^verbatim>\<open>radius\<close> is 0 and the loop
  body runs (\<^verbatim>\<open>segments\<close> positive). Both raise the same error, so the two
  checks stand before the body. A negative \<^verbatim>\<open>segments\<close> makes every range empty.
\<close>

definition generate_quarter_pipe :: "real \<Rightarrow> real \<Rightarrow> int \<Rightarrow> py_error + mesh" where
  "generate_quarter_pipe radius width segments =
     (if segments = 0 then Inl ZeroDivisionError
      else if 0 < segments \<and> radius = 0 then Inl ZeroDivisionError
      else
        let verts = concat (map (quarter_pipe_surface radius width segments)
                                [0..<nat (segments + 1)]);
            idxs = concat (map (\<lambda>i. let base = int i * 2
                                       in [base, base + 2, base + 3, base, base + 3, base + 1])
                               [0..<nat segments]);
            side_start = int (length verts);
            verts = verts @ map (quarter_pipe_side radius segments (- width / 2) (-1))
                                [0..<nat (segments + 1)];
            verts = verts @ [Vertex (- radius) 0 (- width / 2) 0 0 (-1) 0 0];
            verts = verts @ [Vertex 0 radius (- width / 2) 0 0 (-1) 1 1];
            bottom_left = int (length verts) - 2;
            idxs = idxs @ concat (map (\<lambda>i. [bottom_left, side_start + int i, side_start + int i + 1])
                                      [0..<nat segments]);
            right_start = int (length verts);
            verts = verts @ map (quarter_pipe_side radius segments (width / 2) 1)
                                [0..<nat (segments + 1)];
            verts = verts @ [Vertex (- radius) 0 (width / 2) 0 0 1 0 0];
            verts = verts @ [Vertex 0 radius (width / 2) 0 0 1 1 1];
            bottom_right = int (length verts) - 2;
            idxs = idxs @ concat (map (\<lambda>i. [bottom_right, right_start + int i + 1, right_start + int i])
                                      [0..<nat segments])
        in Inr \<lparr>vertices = verts, indices = idxs, material_index = 1\<rparr>)"

subsection \<open>\<^verbatim>\<open>generate_pyramid\<close>\<close>

text \<open>The nested \<^verbatim>\<open>calc_normal\<close>, with its guard for a zero-length cross product.\<close>

definition calc_normal ::
  "real \<times> real \<times> real \<Rightarrow> real \<times> real \<times> real \<Rightarrow> real \<times> real \<times> real \<Rightarrow> real \<times> real \<times> real" where
  "calc_normal p1 p2 p3 =
     (let ax = fst p2 - fst p1; ay = fst (snd p2) - fst (snd p1); az = snd (snd p2) - snd (snd p1);
          bx = fst p3 - fst p1; by = fst (snd p3) - fst (snd p1); bz = snd (snd p3) - snd (snd p1);
          nx = ay * bz - az * by;
          ny = az * bx - ax * bz;
          nz = ax * by - ay * bx;
          len = sqrt (nx * nx + ny * ny + nz * nz)
      in if len > 0 then (nx / len, ny / len, nz / len) else (0, 1, 0))"

definition pyramid_corners :: "real \<Rightarrow> (real \<times> real \<times> real) list" where
  "pyramid_corners base_radius =
     [(- base_radius, 0, - base_radius),
      (  base_radius, 0, - base_radius),
      (  base_radius, 0,   base_radius),
      (- base_radius, 0,   base_radius)]"

definition pyramid_faces :: "(nat \<times> nat) list" where
  "pyramid_faces = [(0, 1), (1, 2), (2, 3), (3, 0)]"

definition pyramid_face_step ::
  "(real \<times> real \<times> real) list \<Rightarrow> real \<times> real \<times> real \<Rightarrow> mesh_acc \<Rightarrow> nat \<times> nat \<Rightarrow> mesh_acc" where
  "pyramid_face_step corners apex acc face =
     (case acc of (verts, idxs) \<Rightarrow>
      case face of (c1, c2) \<Rightarrow>
        let p1 = corners ! c1; p2 = corners ! c2; p3 = apex;
            normal = calc_normal p1 p2 p3;
            base = int (length verts);
            verts = verts @ [Vertex (fst p1) (fst (snd p1)) (snd (snd p1))
                                    (fst normal) (fst (snd normal)) (snd (snd normal)) 0 0];
            verts = verts @ [Vertex (fst p2) (fst (snd p2)) (snd (snd p2))
                                    (fst normal) (fst (snd normal)) (snd (snd normal)) 1 0];
            verts = verts @ [Vertex (fst p3) (fst (snd p3)) (snd (snd p3))
                                    (fst normal) (fst (snd normal)) (snd (snd normal)) 0.5 1]
        in (verts, idxs @ [base, base + 1, base + 2]))"

text \<open>
  The bottom face divides by \<^verbatim>\<open>2*base_radius\<close>: Python raises
  \<^verbatim>\<open>ZeroDivisionError\<close> there when \<^verbatim>\<open>base_radius\<close> is 0; nothing before it
  can raise.
\<close>

definition generate_pyramid :: "real \<Rightarrow> real \<Rightarrow> py_error + mesh" where
  "generate_pyramid base_radius height =
     (let corners = pyramid_corners base_radius;
          apex = (0, height, 0);
          acc = foldl (pyramid_face_step corners apex) ([], []) pyramid_faces;
          verts = fst acc; idxs = snd acc;
          base = int (length verts)
      in if 2 * base_radius = 0 then Inl ZeroDivisionError
         else
           let verts = verts @ map (\<lambda>c. Vertex (fst c) (fst (snd c)) (snd (snd c)) 0 (-1) 0
                                           ((fst c + base_radius) / (2 * base_radius))
                                           ((snd (snd c) + base_radius) / (2 * base_radius)))
                                   corners;
               idxs = idxs @ [base, base + 2, base + 1, base, base + 3, base + 2]
           in Inr \<lparr>vertices = verts, indices = idxs, material_index = 2\<rparr>)"

subsection \<open>\<^verbatim>\<open>generate_rail\<close>\<close>

text \<open>Step \<open>i\<close> of the loop building the main bar (a tube along the X axis).\<close>

definition rail_bar_step :: "real \<Rightarrow> real \<Rightarrow> real \<Rightarrow> nat \<Rightarrow> mesh_acc \<Rightarrow> nat \<Rightarrow> mesh_acc" where
  "rail_bar_step len height radius segments acc i =
     (case acc of (verts, idxs) \<Rightarrow>
        let angle1 = 2 * pi * real i / real segments;
            angle2 = 2 * pi * (real i + 1) / real segments;
            y1 = height + radius * cos angle1;
            z1 = radius * sin angle1;
            y2 = height + radius * cos angle2;
            z2 = radius * sin angle2;
            nx1 = cos angle1; nz1 = sin angle1;
            nx2 = cos angle2; nz2 = sin angle2;
            base = int (length verts);
            verts = verts @ [Vertex (- len / 2) y1 z1 0 nx1 nz1 0 (real i / real segments)];
            verts = verts @ [Vertex (- len / 2) y2 z2 0 nx2 nz2 0 ((real i + 1) / real segments)];
            verts = verts @ [Vertex (len / 2) y1 z1 0 nx1 nz1 1 (real i / real segments)];
            verts = verts @ [Vertex (len / 2) y2 z2 0 nx2 nz2 1 ((real i + 1) / real segments)]
        in (verts, idxs @ [base, base + 1, base + 3, base, base + 3, base + 2]))"

text \<open>Step \<open>i\<close> of the inner loop building the support post at \<open>sx\<close>.\<close>

definition rail_support_step :: "real \<Rightarrow> real \<Rightarrow> nat \<Rightarrow> real \<Rightarrow> mesh_acc \<Rightarrow> nat \<Rightarrow> mesh_acc" where
  "rail_support_step height support_radius segments sx acc i =
     (case acc of (verts, idxs) \<Rightarrow>
        let angle1 = 2 * pi * real i / real segments;
            angle2 = 2 * pi * (real i + 1) / real segments;
            x1 = sx + support_radius * cos angle1;
            z1 = support_radius * sin angle1;
            x2 = sx + support_radius * cos angle2;
            z2 = support_radius * sin angle2;
            base = int (length verts);
            verts = verts @ [Vertex x1 0 z1 (cos angle1) 0 (sin angle1) 0 0];
            verts = verts @ [Vertex x2 0 z2 (cos angle2) 0 (sin angle2) 1 0];
            verts = verts @ [Vertex x1 height z1 (cos angle1) 0 (sin angle1) 0 1];
            verts = verts @ [Vertex x2 height z2 (cos angle2) 0 (sin angle2) 1 1]
        in (verts, idxs @ [base, base + 2, base + 3, base, base + 3, base + 1]))"

definition generate_rail :: "real \<Rightarrow> real \<Rightarrow> real \<Rightarrow> mesh" where
  "generate_rail len height radius =
     (let segments = 8;
          acc = foldl (rail_bar_step len height radius segments) ([], []) [0..<segments];
          support_radius = 0.05;
          support_positions = [- len / 2 + 0.5, len / 2 - 0.5];
          acc = foldl (\<lambda>acc sx. foldl (rail_support_step height support_radius segments sx)
                                       acc [0..<segments])
                      acc support_positions
      in \<lparr>vertices = fst acc, indices = snd acc, material_index = 3\<rparr>)"

subsection \<open>\<^verbatim>\<open>generate_stairs\<close>, \<^verbatim>\<open>generate_ledge\<close>\<close>

text \<open>The box of step \<open>i\<close>, as the loop body calls \<^verbatim>\<open>generate_box\<close>.\<close>

definition stairs_box :: "real \<Rightarrow> real \<Rightarrow> real \<Rightarrow> nat \<Rightarrow> mesh" where
  "stairs_box step_height step_depth step_width i =
     generate_box step_width step_height step_depth
                  0 (step_height * (real i + 0.5)) (- step_depth * real i)"

definition stairs_step :: "real \<Rightarrow> real \<Rightarrow> real \<Rightarrow> mesh_acc \<Rightarrow> nat \<Rightarrow> mesh_acc" where
  "stairs_step step_height step_depth step_width acc i =
     (case acc of (all_vertices, all_indices) \<Rightarrow>
        let box = stairs_box step_height step_depth step_width i;
            base = int (length all_vertices)
        in (all_vertices @ vertices box,
            all_indices @ map (\<lambda>idx. idx + base) (indices box)))"

definition generate_stairs :: "int \<Rightarrow> real \<Rightarrow> real \<Rightarrow> real \<Rightarrow> mesh" where
  "generate_stairs num_steps step_height step_depth step_width =
     (let acc = foldl (stairs_step step_height step_depth step_width) ([], [])
                      [0..<nat num_steps]
      in \<lparr>vertices = fst acc, indices = snd acc, material_index = 1\<rparr>)"

definition generate_ledge :: "real \<Rightarrow> real \<Rightarrow> real \<Rightarrow> mesh" where
  "generate_ledge len height depth =
     (let box = generate_box len height depth 0 (height / 2) 0
      in box\<lparr>material_index := 1\<rparr>)"

subsection \<open>\<^verbatim>\<open>generate_kicker\<close>\<close>

text \<open>The two vertices appended by step \<open>i\<close> of the loop over the Bezier profile.\<close>

definition kicker_surface :: "real \<Rightarrow> real \<Rightarrow> real \<Rightarrow> nat \<Rightarrow> nat \<Rightarrow> vertex list" where
  "kicker_surface len height width segments i =
     (let t = real i / real segments;
          x = (1 - t)^2 * 0 + 2 * (1 - t) * t * (len * 0.75) + t^2 * len;
          y = (1 - t)^2 * 0 + 2 * (1 - t) * t * 0 + t^2 * height;
          dx = 2 * (1 - t) * (len * 0.75 - 0) + 2 * t * (len - len * 0.75);
          dy = 2 * t * height;
          length_n = sqrt (dx * dx + dy * dy);
          nx = (if length_n > 0 then - dy / length_n else 0);
          ny = (if length_n > 0 then dx / length_n else 1);
          u = t
      in [Vertex x y (- width / 2) nx ny 0 u 0,
          Vertex x y (width / 2) nx ny 0 u 1])"

definition generate_kicker :: "real \<Rightarrow> real \<Rightarrow> real \<Rightarrow> mesh" where
  "generate_kicker len height width =
     (let segments = 8;
          verts = concat (map (kicker_surface len height width segments) [0..<segments + 1]);
          idxs = concat (map (\<lambda>i. let base = int i * 2
                                     in [base, base + 2, base + 3, base, base + 3, base + 1])
                             [0..<segments]);
          base = int (length verts);
          verts = verts @ [Vertex 0 0 (- width / 2) 0 (-1) 0 0 0];
          verts = verts @ [Vertex 0 0 (width / 2) 0 (-1) 0 0 1];
          verts = verts @ [Vertex len 0 (width / 2) 0 (-1) 0 1 1];
          verts = verts @ [Vertex len 0 (- width / 2) 0 (-1) 0 1 0];
          idxs = idxs @ [base, base + 1, base + 2, base, base + 2, base + 3];
          base = int (length verts);
          verts = verts @ [Vertex len 0 (- width / 2) 1 0 0 0 0];
          verts = verts @ [Vertex len 0 (width / 2) 1 0 0 1 0];
          verts = verts @ [Vertex len height (width / 2) 1 0 0 1 1];
          verts = verts @ [Vertex len height (- width / 2) 1 0 0 0 1];
          idxs = idxs @ [base, base + 1, base + 2, base, base + 2, base + 3]
      in \<lparr>vertices = verts, indices = idxs, material_index = 4\<rparr>)"

subsection \<open>\<^verbatim>\<open>generate_manual_pad\<close>, \<^verbatim>\<open>generate_bench\<close>, \<^verbatim>\<open>generate_ground_flat\<close>\<close>

definition generate_manual_pad :: "real \<Rightarrow> real \<Rightarrow> real \<Rightarrow> mesh" where
  "generate_manual_pad len height width =
     (let box = generate_box len height width 0 (height / 2) 0
      in box\<lparr>material_index := 1\<rparr>)"

definition bench_leg_step :: "mesh_acc \<Rightarrow> real \<Rightarrow> mesh_acc" where
  "bench_leg_step acc x_offset =
     (case acc of (all_vertices, all_indices) \<Rightarrow>
        let base = int (length all_vertices);
            leg = generate_box 0.1 0.5 0.5 x_offset 0.25 0
        in (all_vertices @ vertices leg,
            all_indices @ map (\<lambda>idx. idx + base) (indices leg)))"

definition generate_bench :: mesh where
  "generate_bench =
     (let seat = generate_box 2.0 0.1 0.5 0 0.5 0;
          acc = ([] @ vertices seat, [] @ indices seat);
          acc = foldl bench_leg_step acc [-0.8, 0.8]
      in \<lparr>vertices = fst acc, indices = snd acc, material_index = 5\<rparr>)"

definition generate_ground_flat :: "real \<Rightarrow> mesh" where
  "generate_ground_flat sz =
     (let box = generate_box sz 0.5 sz 0 (-0.25) 0
      in box\<lparr>material_index := 0\<rparr>)"

subsection \<open>\<^verbatim>\<open>generate_slope\<close>\<close>

definition generate_slope :: "real \<Rightarrow> real \<Rightarrow> real \<Rightarrow> mesh" where
  "generate_slope len height width =
     (let verts = [];
          idxs = [];
          verts = verts @ [Vertex 0 0 (- width / 2) 0 0.894 (-0.447) 0 0];
          verts = verts @ [Vertex 0 0 (width / 2) 0 0.894 (-0.447) 0 1];
          verts = verts @ [Vertex len height (width / 2) 0 0.894 (-0.447) 1 1];
          verts = verts @ [Vertex len height (- width / 2) 0 0.894 (-0.447) 1 0];
          idxs = idxs @ [0, 1, 2, 0, 2, 3];
          base = int (length verts);
          verts = verts @ [Vertex 0 0 (- width / 2) 0 (-1) 0 0 0];
          verts = verts @ [Vertex 0 0 (width / 2) 0 (-1) 0 0 1];
          verts = verts @ [Vertex len 0 (width / 2) 0 (-1) 0 1 1];
          verts = verts @ [Vertex len 0 (- width / 2) 0 (-1) 0 1 0];
          idxs = idxs @ [base, base + 2, base + 1, base, base + 3, base + 2];
          base = int (length verts);
          verts = verts @ [Vertex len 0 (- width / 2) 1 0 0 0 0];
          verts = verts @ [Vertex len 0 (width / 2) 1 0 0 1 0];
          verts = verts @ [Vertex len height (width / 2) 1 0 0 1 1];
          verts = verts @ [Vertex len height (- width / 2) 1 0 0 0 1];
          idxs = idxs @ [base, base + 1, base + 2, base, base + 2, base + 3];
          base = int (length verts);
          verts = verts @ [Vertex 0 0 (- width / 2) 0 0 (-1) 0 0];
          verts = verts @ [Vertex len 0 (- width / 2) 0 0 (-1) 1 0];
          verts = verts @ [Vertex len height (- width / 2) 0 0 (-1) 1 1];
          idxs = idxs @ [base, base + 1, base + 2];
          base = int (length verts);
          verts = verts @ [Vertex 0 0 (width / 2) 0 0 1 0 0];
          verts = verts @ [Vertex len height (width / 2) 0 0 1 1 1];
          verts = verts @ [Vertex len 0 (width / 2) 0 0 1 1 0];
          idxs = idxs @ [base, base + 1, base + 2]
      in \<lparr>vertices = verts, indices = idxs, material_index = 1\<rparr>)"

subsection \<open>The invariant of a mesh\<close>

text \<open>
  The index list is a whole number of triangles, and every index points into the
  mesh's own vertex list.
\<close>

definition mesh_ok :: "mesh \<Rightarrow> bool" where
  "mesh_ok m \<longleftrightarrow>
     length (indices m) mod 3 = 0 \<and>
     list_all (\<lambda>i. 0 \<le> i \<and> i < int (length (vertices m))) (indices m)"

section \<open>Transform helpers\<close>

text \<open>
  A placement dictionary (\<^verbatim>\<open>pos\<close>, \<^verbatim>\<open>rot\<close>) is a map from keys to
  numbers; \<open>dict_get d k dflt\<close> is \<^verbatim>\<open>d.get(k, dflt)\<close>.
\<close>

definition dict_get :: "(string \<rightharpoonup> 'a) \<Rightarrow> string \<Rightarrow> 'a \<Rightarrow> 'a" where
  "dict_get d k dflt = (case d k of None \<Rightarrow> dflt | Some val \<Rightarrow> val)"

definition transform_vertex ::
  "vertex \<Rightarrow> (string \<rightharpoonup> real) \<Rightarrow> (string \<rightharpoonup> real) \<Rightarrow> real \<Rightarrow> vertex" where
  "transform_vertex v pos rot scale =
     (let x = v_x v * scale;
          y = v_y v * scale;
          z = v_z v * scale;
          angle = dict_get rot ''y'' 0;
          cos_a = cos angle;
          sin_a = sin angle;
          new_x = x * cos_a - z * sin_a;
          new_z = x * sin_a + z * cos_a;
          new_nx = v_nx v * cos_a - v_nz v * sin_a;
          new_nz = v_nx v * sin_a + v_nz v * cos_a;
          ts_scale = 100.0;
          final_x = (new_x + dict_get pos ''x'' 0) * ts_scale;
          final_y = (y + dict_get pos ''y'' 0) * ts_scale;
          final_z = (new_z + dict_get pos ''z'' 0) * ts_scale
      in \<lparr>v_x = final_x, v_y = final_y, v_z = final_z,
          v_nx = new_nx, v_ny = v_ny v, v_nz = new_nz,
          v_u = v_u v, v_v = v_v v,
          v_r = v_r v, v_g = v_g v, v_b = v_b v, v_a = v_a v\<rparr>)"

text \<open>
  The four stages of the transform as the specification words them, each on its own:
  uniform scaling of the position, rotation of position and normal about the Y axis,
  translation of the position, and the unit conversion of the position.
\<close>

definition stage_scale :: "real \<Rightarrow> vertex \<Rightarrow> vertex" where
  "stage_scale s v = v\<lparr>v_x := v_x v * s, v_y := v_y v * s, v_z := v_z v * s\<rparr>"

definition stage_rotate_y :: "real \<Rightarrow> vertex \<Rightarrow> vertex" where
  "stage_rotate_y theta v =
     v\<lparr>v_x := v_x v * cos theta - v_z v * sin theta,
       v_z := v_x v * sin theta + v_z v * cos theta,
       v_nx := v_nx v * cos theta - v_nz v * sin theta,
       v_nz := v_nx v * sin theta + v_nz v * cos theta\<rparr>"

definition stage_translate :: "real \<Rightarrow> real \<Rightarrow> real \<Rightarrow> vertex \<Rightarrow> vertex" where
  "stage_translate px py pz v = v\<lparr>v_x := v_x v + px, v_y := v_y v + py, v_z := v_z v + pz\<rparr>"

definition stage_unit_scale :: "vertex \<Rightarrow> vertex" where
  "stage_unit_scale v = v\<lparr>v_x := v_x v * 100, v_y := v_y v * 100, v_z := v_z v * 100\<rparr>"

section \<open>The format writer\<close>

text \<open>
  \<^verbatim>\<open>str\<close> on a length and on an integer: decimal digits, with a minus sign for a
  negative integer.
\<close>

definition digit_char :: "nat \<Rightarrow> char" where
  "digit_char d = ''0123456789'' ! d"

fun str_nat :: "nat \<Rightarrow> string" where
  "str_nat n = (if n < 10 then [digit_char n] else str_nat (n div 10) @ [digit_char (n mod 10)])"

declare str_nat.simps [simp del]

definition str_int :: "int \<Rightarrow> string" where
  "str_int i = (if i < 0 then CHR ''-'' # str_nat (nat (- i)) else str_nat (nat i))"

text \<open>
  The format specification \<^verbatim>\<open>:.6f\<close> on the real value: six decimals, correctly
  rounded with ties to even, a minus sign for a negative value. (A float's negative zero
  is outside the model.)
\<close>

definition round_half_even :: "real \<Rightarrow> int" where
  "round_half_even x =
     (let f = \<lfloor>x\<rfloor>; d = x - of_int f
      in if d < 1 / 2 then f else if 1 / 2 < d then f + 1 else if even f then f else f + 1)"

definition format_6f :: "real \<Rightarrow> string" where
  "format_6f x =
     (let n = nat (round_half_even (\<bar>x\<bar> * 1000000));
          frac = str_nat (n mod 1000000)
      in (if x < 0 then [CHR ''-''] else []) @ str_nat (n div 1000000) @ [CHR ''.'']
         @ replicate (6 - length frac) (CHR ''0'') @ frac)"

definition material_colors :: "(int \<times> int \<times> int) list" where
  "material_colors =
     [(128, 128, 130), (100, 100, 105), (85, 85, 90),
      (180, 180, 180), (136, 85, 51), (139, 69, 19)]"

text \<open>The lines appended by one round of the loop over \<^verbatim>\<open>material_colors\<close>.\<close>

definition material_lines :: "int \<times> int \<times> int \<Rightarrow> string list" where
  "material_lines c =
     (case c of (r, g, b) \<Rightarrow>
        [''#Material'', ''1 #Material Type (Solid)'', ''#Color'']
        @ [str_int r, str_int g, str_int b, ''255'']
        @ [''1.000000 #Specular'', ''5.000000 #G Blend Sharpness'',
           ''0.800000 #G Blend Level'', ''0.500000 #G Blend Mode'', ''#G Shadow Color'']
        @ [''180'', ''180'', ''180'', ''255'']
        @ [''#G Highlight Color'']
        @ [''255'', ''255'', ''255'', ''255'']
        @ [''0 #Texture index'', ''0'', ''0''])"

text \<open>The lines appended by one round of the loop that writes the per-mesh headers.\<close>

definition mesh_header_lines :: "mesh \<Rightarrow> string list" where
  "mesh_header_lines m =
     [str_nat (length (indices m)) @ '' #Num Indices'',
      str_nat (length (vertices m)) @ '' #Num Vertices'',
      ''#Normals (Flags |= 0x1)'',
      ''1 #Flags'',
      ''2 #Num Colour Sets'',
      ''2 #Num Uv Sets'',
      ''#Mesh'']"

text \<open>The lines appended for one vertex by the loop that writes the vertex data.\<close>

definition vertex_lines :: "vertex \<Rightarrow> string list" where
  "vertex_lines v =
     [format_6f (v_nx v), format_6f (v_ny v), format_6f (v_nz v),
      format_6f (v_x v), format_6f (v_y v), format_6f (v_z v),
      format_6f (v_u v), format_6f (v_v v),
      format_6f (v_u v), format_6f (v_v v)]
     @ [str_int (v_r v), str_int (v_g v), str_int (v_b v), str_int (v_a v)]
     @ [''255'', ''255'', ''255'', ''255'']"

text \<open>
  The list \<^verbatim>\<open>lines\<close> that \<^verbatim>\<open>write_trueskate_txt\<close> builds, statement by
  statement; every loop appends to the list it is handed.
\<close>

definition trueskate_lines :: "mesh list \<Rightarrow> string list \<Rightarrow> string list" where
  "trueskate_lines meshes textures =
     (let total_vertices = sum_list (map (\<lambda>m. length (vertices m)) meshes);
          lines = [];
          lines = lines @ [''84'', ''65'', ''83'', ''75''];
          lines = lines @ [''1003 #Version''];
          lines = lines @ [''<VIS ''];
          lines = lines @ [''17''];
          lines = lines @ [str_nat (length textures) @ '' #Num Textures''];
          lines = foldl (\<lambda>lines tex. lines @ [tex]) lines textures;
          num_materials = 6;
          lines = lines @ [str_nat num_materials @ '' #Num Materials''];
          lines = foldl (\<lambda>lines c. lines @ material_lines c) lines material_colors;
          lines = lines @ [str_nat total_vertices @ '' #Num Vertices''];
          lines = foldl (\<lambda>lines m. lines @ mesh_header_lines m) lines meshes;
          lines = foldl (\<lambda>lines m. foldl (\<lambda>lines v. lines @ vertex_lines v) lines (vertices m))
                        lines meshes;
          lines = foldl (\<lambda>lines m. foldl (\<lambda>lines idx. lines @ [str_int idx]) lines (indices m))
                        lines meshes
      in lines)"

text \<open>\<^verbatim>\<open>'\n'.join(lines)\<close>.\<close>

fun join_lines :: "string list \<Rightarrow> string" where
  "join_lines [] = []"
| "join_lines [l] = l"
| "join_lines (l # ls) = l @ [CHR 0x0A] @ join_lines ls"

text \<open>The text that \<^verbatim>\<open>write_trueskate_txt\<close> writes to the geometry file.\<close>

definition write_trueskate_txt :: "mesh list \<Rightarrow> string list \<Rightarrow> string" where
  "write_trueskate_txt meshes textures = join_lines (trueskate_lines meshes textures)"

section \<open>The object registry and the export\<close>

text \<open>
  \<^verbatim>\<open>OBJECT_GENERATORS\<close>: the dictionary from type identifier to generator. Each
  entry is called with no argument, so the value kept here is the result of that call,
  with the defaults of the generator's signature.
\<close>

definition OBJECT_GENERATORS :: "(string \<times> (py_error + mesh)) list" where
  "OBJECT_GENERATORS =
     [(''ground-flat'', Inr (generate_ground_flat 10.0)),
      (''ground-slope'', Inr (generate_slope 5.0 2.0 5.0)),
      (''quarter-pipe'', generate_quarter_pipe 3.0 6.0 12),
      (''half-pipe'', generate_quarter_pipe 3.0 6.0 12),
      (''kicker'', Inr (generate_kicker 2.0 1.5 3.0)),
      (''pyramid'', generate_pyramid 3.0 2.0),
      (''rail-flat'', Inr (generate_rail 6.0 0.8 0.08)),
      (''rail-down'', Inr (generate_rail 6.0 0.8 0.08)),
      (''ledge'', Inr (generate_ledge 5.0 0.6 0.8)),
      (''manual-pad'', Inr (generate_manual_pad 4.0 0.3 2.0)),
      (''stairs-3'', Inr (generate_stairs 3 0.4 1.0 3.0)),
      (''stairs-5'', Inr (generate_stairs 5 0.4 1.0 3.0)),
      (''stairs-hubba'', Inr (generate_stairs 4 0.4 1.0 3.0)),
      (''bench'', Inr generate_bench),
      (''trash-can'', Inr (generate_box 0.6 0.8 0.6 0 0.4 0))]"

text \<open>
  An object descriptor of the input: every field may be missing. The input as a whole:
  a name and an object list, both optional.
\<close>

record obj_desc =
  o_type :: "string option"
  o_position :: "(string \<rightharpoonup> real) option"
  o_rotation :: "(string \<rightharpoonup> real) option"
  o_scale :: "real option"

record park_data =
  d_name :: "string option"
  d_objects :: "obj_desc list option"

text \<open>
  The console: one entry per \<^verbatim>\<open>print\<close> call of the export up to the end of the
  object loop, holding the values its format string interpolates:
  \<^verbatim>\<open>Exporting '{park_name}' with {len(objects)} objects...\<close>,
  \<^verbatim>\<open>  + {obj_type} at ({pos['x']}, {pos['y']}, {pos['z']})\<close> and
  \<^verbatim>\<open>  ! Unknown object type: {obj_type}\<close>.
\<close>

datatype console_line =
    Exporting string nat
  | Placed string real real real
  | UnknownObjectType string

text \<open>The state of the object loop: the list \<^verbatim>\<open>all_meshes\<close> and the console.\<close>

type_synonym scene_state = "mesh list \<times> console_line list"

text \<open>
  The first four statements of the loop body: the fields of the descriptor with their
  defaults, \<^verbatim>\<open>obj.get('type', 'ground-flat')\<close>,
  \<^verbatim>\<open>obj.get('position', {'x': 0, 'y': 0, 'z': 0})\<close>,
  \<^verbatim>\<open>obj.get('rotation', {'y': 0})\<close> and \<^verbatim>\<open>obj.get('scale', 1.0)\<close>.
\<close>

definition obj_type_of :: "obj_desc \<Rightarrow> string" where
  "obj_type_of obj = (case o_type obj of None \<Rightarrow> ''ground-flat'' | Some t \<Rightarrow> t)"

definition obj_pos :: "obj_desc \<Rightarrow> (string \<rightharpoonup> real)" where
  "obj_pos obj =
     (case o_position obj of None \<Rightarrow> [''x'' \<mapsto> 0, ''y'' \<mapsto> 0, ''z'' \<mapsto> 0] | Some p \<Rightarrow> p)"

definition obj_rot :: "obj_desc \<Rightarrow> (string \<rightharpoonup> real)" where
  "obj_rot obj = (case o_rotation obj of None \<Rightarrow> [''y'' \<mapsto> 0] | Some r \<Rightarrow> r)"

definition obj_scale :: "obj_desc \<Rightarrow> real" where
  "obj_scale obj = (case o_scale obj of None \<Rightarrow> 1.0 | Some s \<Rightarrow> s)"

text \<open>
  The mesh appended for a generated mesh: every vertex transformed, the index list and
  the material index kept.
\<close>

definition placed_mesh :: "mesh \<Rightarrow> (string \<rightharpoonup> real) \<Rightarrow> (string \<rightharpoonup> real) \<Rightarrow> real \<Rightarrow> mesh" where
  "placed_mesh m pos rot scale =
     (let transformed_verts = map (\<lambda>v. transform_vertex v pos rot scale) (vertices m)
      in \<lparr>vertices = transformed_verts,
          indices = indices m,
          material_index = material_index m\<rparr>)"

text \<open>
  The progress line \<^verbatim>\<open>print(f"  + {obj_type} at ({pos['x']}, {pos['y']}, {pos['z']})")\<close>:
  the subscripts raise \<^verbatim>\<open>KeyError\<close> on a missing key, the first missing one in
  the order x, y, z.
\<close>

definition progress_line :: "string \<Rightarrow> (string \<rightharpoonup> real) \<Rightarrow> py_error + console_line" where
  "progress_line obj_type pos =
     (case pos ''x'' of
        None \<Rightarrow> Inl (KeyError ''x'')
      | Some px \<Rightarrow>
     (case pos ''y'' of
        None \<Rightarrow> Inl (KeyError ''y'')
      | Some py \<Rightarrow>
     (case pos ''z'' of
        None \<Rightarrow> Inl (KeyError ''z'')
      | Some pz \<Rightarrow> Inr (Placed obj_type px py pz))))"

text \<open>
  The body of the loop \<^verbatim>\<open>for obj in objects\<close>. It returns the state it leaves
  behind and the exception it raised, if any: a generator's exception leaves the state
  as it was, and the \<^verbatim>\<open>KeyError\<close> of the progress line is raised after the mesh
  has been appended to \<^verbatim>\<open>all_meshes\<close>.
\<close>

definition assemble_object :: "obj_desc \<Rightarrow> scene_state \<Rightarrow> scene_state \<times> py_error option" where
  "assemble_object obj st =
     (case st of (all_meshes, console) \<Rightarrow>
        let obj_type = obj_type_of obj;
            pos = obj_pos obj;
            rot = obj_rot obj;
            scale = obj_scale obj
        in (case map_of OBJECT_GENERATORS obj_type of
             Some generator \<Rightarrow>
               (case generator of
                  Inl e \<Rightarrow> ((all_meshes, console), Some e)
                | Inr m \<Rightarrow>
                    let all_meshes = all_meshes @ [placed_mesh m pos rot scale]
                    in (case progress_line obj_type pos of
                          Inl e \<Rightarrow> ((all_meshes, console), Some e)
                        | Inr line \<Rightarrow> ((all_meshes, console @ [line]), None)))
           | None \<Rightarrow> ((all_meshes, console @ [UnknownObjectType obj_type]), None)))"

text \<open>The loop itself: it stops at the first exception.\<close>

fun assemble_objects :: "obj_desc list \<Rightarrow> scene_state \<Rightarrow> scene_state \<times> py_error option" where
  "assemble_objects [] st = (st, None)"
| "assemble_objects (obj # objs) st =
     (case assemble_object obj st of
        (st', Some e) \<Rightarrow> (st', Some e)
      | (st', None) \<Rightarrow> assemble_objects objs st')"

text \<open>The ground plane that the export puts first.\<close>

definition ground_mesh :: mesh where
  "ground_mesh =
     (let ground = generate_ground_flat 50.0
      in \<lparr>vertices = map (\<lambda>v. transform_vertex v [''x'' \<mapsto> 0, ''y'' \<mapsto> -0.25, ''z'' \<mapsto> 0]
                                                 [''y'' \<mapsto> 0] 1.0)
                          (vertices ground),
          indices = indices ground,
          material_index = 0\<rparr>)"

text \<open>
  The scene assembler: the part of \<^verbatim>\<open>export_skatepark\<close> that builds
  \<^verbatim>\<open>all_meshes\<close>, started on the console it is handed.
\<close>

definition assemble_scene :: "obj_desc list \<Rightarrow> console_line list \<Rightarrow> scene_state \<times> py_error option" where
  "assemble_scene objects console =
     (let all_meshes = [];
          all_meshes = all_meshes @ [ground_mesh]
      in assemble_objects objects (all_meshes, console))"

text \<open>
  \<^verbatim>\<open>export_skatepark\<close> on the loaded JSON data, as far as the geometry file: the
  text written to the file and the console, or the exception that ended the export
  before anything was written. (Reading the JSON file, the output path, directory
  creation, the metadata file and the texture note are left out.)
\<close>

record export_result =
  geometry_txt :: string
  console_out :: "console_line list"

definition export_skatepark :: "park_data \<Rightarrow> py_error + export_result" where
  "export_skatepark data =
     (let park_name = (case d_name data of None \<Rightarrow> ''My Skatepark'' | Some n \<Rightarrow> n);
          objects = (case d_objects data of None \<Rightarrow> [] | Some objs \<Rightarrow> objs);
          console = [Exporting park_name (length objects)]
      in case assemble_scene objects console of
           (st, Some e) \<Rightarrow> Inl e
         | ((all_meshes, console), None) \<Rightarrow>
             let textures = [''concrete_gray'']
             in Inr \<lparr>geometry_txt = write_trueskate_txt all_meshes textures,
                     console_out = console\<rparr>)"

text \<open>
  The value that \<^verbatim>\<open>export_skatepark\<close> returns to its caller, the output path:
  \<^verbatim>\<open>safe_name = park_name.replace(' ', '_').lower()\<close>,
  \<^verbatim>\<open>output_path = os.path.join(output_dir, safe_name)\<close> and, at the end,
  \<^verbatim>\<open>return output_path\<close>. Nothing else is returned. (\<^verbatim>\<open>lower\<close> is modelled on
  ASCII letters, \<^verbatim>\<open>os.path.join\<close> as on POSIX.)
\<close>

definition ascii_lower :: "char \<Rightarrow> char" where
  "ascii_lower c =
     (case map_of (zip ''ABCDEFGHIJKLMNOPQRSTUVWXYZ'' ''abcdefghijklmnopqrstuvwxyz'') c of
        None \<Rightarrow> c
      | Some l \<Rightarrow> l)"

definition safe_name_of :: "string \<Rightarrow> string" where
  "safe_name_of park_name =
     map ascii_lower (map (\<lambda>c. if c = CHR '' '' then CHR ''_'' else c) park_name)"

definition os_path_join :: "string \<Rightarrow> string \<Rightarrow> string" where
  "os_path_join a b =
     (if b \<noteq> [] \<and> hd b = CHR ''/'' then b
      else if a = [] \<or> last a = CHR ''/'' then a @ b
      else a @ ''/'' @ b)"

definition export_skatepark_returned :: "park_data \<Rightarrow> string \<Rightarrow> py_error + string" where
  "export_skatepark_returned data output_dir =
     (let park_name = (case d_name data of None \<Rightarrow> ''My Skatepark'' | Some n \<Rightarrow> n);
          safe_name = safe_name_of park_name;
          output_path = os_path_join output_dir safe_name
      in case export_skatepark data of
           Inl e \<Rightarrow> Inl e
         | Inr r \<Rightarrow> Inr output_path)"

text \<open>
  Concatenation with index rebasing as the specification words it: each mesh's indices
  are shifted by the running vertex count, the number of vertices of the meshes before it.
\<close>

fun concat_rebased :: "nat \<Rightarrow> mesh list \<Rightarrow> mesh_acc" where
  "concat_rebased running_vertex_count [] = ([], [])"
| "concat_rebased running_vertex_count (m # ms) =
     (let rest = concat_rebased (running_vertex_count + length (vertices m)) ms
      in (vertices m @ fst rest,
          map (\<lambda>old_index. old_index + int running_vertex_count) (indices m) @ snd rest))"

text \<open>
  The lines of the geometry file that come before the per-mesh headers: magic numbers,
  version, texture table, material table and the global vertex count.
\<close>

definition preamble_lines :: "string list \<Rightarrow> nat \<Rightarrow> string list" where
  "preamble_lines textures total_vertices =
     [''84'', ''65'', ''83'', ''75'', ''1003 #Version'', ''<VIS '', ''17'',
      str_nat (length textures) @ '' #Num Textures'']
     @ textures
     @ [''6 #Num Materials'']
     @ concat (map material_lines material_colors)
     @ [str_nat total_vertices @ '' #Num Vertices'']"

text \<open>
  The same invariant on a mesh under construction: the pair of the vertex list and the
  index list built so far.
\<close>

definition acc_ok :: "mesh_acc \<Rightarrow> bool" where
  "acc_ok acc \<longleftrightarrow>
     length (snd acc) mod 3 = 0 \<and>
     list_all (\<lambda>i. 0 \<le> i \<and> i < int (length (fst acc))) (snd acc)"

section \<open>The layout of the geometry file\<close>

lemma foldl_append_concat:
  "foldl (\<lambda>acc x. acc @ f x) acc xs = acc @ concat (map f xs)"
  by (induction xs arbitrary: acc) simp_all

lemma foldl_foldl_append_concat:
  "foldl (\<lambda>acc m. foldl (\<lambda>acc v. acc @ g v) acc (h m)) acc ms
     = acc @ concat (map (\<lambda>m. concat (map g (h m))) ms)"
  by (induction ms arbitrary: acc) (simp_all add: foldl_append_concat)

lemma str_nat_6: "str_nat 6 = ''6''"
  by (simp add: str_nat.simps digit_char_def)

lemma trueskate_lines_layout:
  "trueskate_lines meshes textures =
     [''84'', ''65'', ''83'', ''75'', ''1003 #Version'', ''<VIS '', ''17'',
      str_nat (length textures) @ '' #Num Textures'']
     @ textures
     @ [''6 #Num Materials'']
     @ concat (map material_lines material_colors)
     @ [str_nat (sum_list (map (\<lambda>m. length (vertices m)) meshes)) @ '' #Num Vertices'']
     @ concat (map mesh_header_lines meshes)
     @ concat (map (\<lambda>m. concat (map vertex_lines (vertices m))) meshes)
     @ concat (map (\<lambda>m. map str_int (indices m)) meshes)"
  unfolding trueskate_lines_def Let_def
  by (simp add: foldl_append_concat foldl_foldl_append_concat str_nat_6
        foldl_foldl_append_concat [where g = "\<lambda>x. [str_int x]", simplified])

lemma length_material_table: "length (concat (map material_lines material_colors)) = 144"
  by (simp add: material_colors_def material_lines_def)

lemma length_header_block: "length (concat (map mesh_header_lines meshes)) = 7 * length meshes"
  by (induction meshes) (simp_all add: mesh_header_lines_def)

lemma length_vertex_lines: "length (vertex_lines v) = 18"
  by (simp add: vertex_lines_def)

lemma length_vertex_block:
  "length (concat (map (\<lambda>m. concat (map vertex_lines (vertices m))) meshes))
     = 18 * sum_list (map (\<lambda>m. length (vertices m)) meshes)"
proof -
  have one: "length (concat (map vertex_lines vs)) = 18 * length vs" for vs
    by (induction vs) (simp_all add: length_vertex_lines)
  show ?thesis
    by (induction meshes) (simp_all add: one)
qed

lemma mesh_header_lines_fun:
  "mesh_header_lines = (\<lambda>m. [str_nat (length (indices m)) @ '' #Num Indices'',
                                 str_nat (length (vertices m)) @ '' #Num Vertices'',
                                 ''#Normals (Flags |= 0x1)'',
                                 ''1 #Flags'',
                                 ''2 #Num Colour Sets'',
                                 ''2 #Num Uv Sets'',
                                 ''#Mesh''])"
  by (rule ext) (simp add: mesh_header_lines_def)

lemma length_preamble_lines: "length (preamble_lines textures n) = 154 + length textures"
  by (simp add: preamble_lines_def length_material_table)

lemma trueskate_lines_blocks:
  "trueskate_lines meshes textures =
     preamble_lines textures (sum_list (map (\<lambda>m. length (vertices m)) meshes))
     @ concat (map mesh_header_lines meshes)
     @ concat (map (\<lambda>m. concat (map vertex_lines (vertices m))) meshes)
     @ concat (map (\<lambda>m. map str_int (indices m)) meshes)"
  by (simp add: trueskate_lines_layout preamble_lines_def)

text \<open>
  Claim C1. For every scene and texture list the output text is, line by line, the
  preamble (the 154 fixed lines and the texture names; it ends with the global vertex
  count), then the header blocks of all meshes, one block of seven lines per mesh in
  scene order (index count, vertex count, normals marker, flags, colour-set count,
  UV-set count, mesh marker), written one after the other, then the vertex data of all
  meshes, then the index data. So every line of every header block stands before the
  first vertex-data line of any mesh.
\<close>

theorem writer_headers_before_vertex_data:
  "write_trueskate_txt meshes textures =
     join_lines
       (preamble_lines textures (sum_list (map (\<lambda>m. length (vertices m)) meshes))
        @ concat (map (\<lambda>m. [str_nat (length (indices m)) @ '' #Num Indices'',
                               str_nat (length (vertices m)) @ '' #Num Vertices'',
                               ''#Normals (Flags |= 0x1)'',
                               ''1 #Flags'',
                               ''2 #Num Colour Sets'',
                               ''2 #Num Uv Sets'',
                               ''#Mesh'']) meshes)
        @ concat (map (\<lambda>m. concat (map vertex_lines (vertices m))) meshes)
        @ concat (map (\<lambda>m. map str_int (indices m)) meshes))
   \<and> length (preamble_lines textures (sum_list (map (\<lambda>m. length (vertices m)) meshes)))
       = 154 + length textures"
proof
  show "write_trueskate_txt meshes textures =
     join_lines
       (preamble_lines textures (sum_list (map (\<lambda>m. length (vertices m)) meshes))
        @ concat (map (\<lambda>m. [str_nat (length (indices m)) @ '' #Num Indices'',
                               str_nat (length (vertices m)) @ '' #Num Vertices'',
                               ''#Normals (Flags |= 0x1)'',
                               ''1 #Flags'',
                               ''2 #Num Colour Sets'',
                               ''2 #Num Uv Sets'',
                               ''#Mesh'']) meshes)
        @ concat (map (\<lambda>m. concat (map vertex_lines (vertices m))) meshes)
        @ concat (map (\<lambda>m. map str_int (indices m)) meshes))"
    unfolding write_trueskate_txt_def trueskate_lines_blocks mesh_header_lines_fun
    by (rule refl)
  show "length (preamble_lines textures (sum_list (map (\<lambda>m. length (vertices m)) meshes)))
          = 154 + length textures"
    by (rule length_preamble_lines)
qed

lemma drop_length_append: "xs = ys @ zs \<Longrightarrow> drop (length ys) xs = zs"
  by simp

text \<open>The decimal of an integer determines the integer.\<close>

lemma digit_char_inj:
  assumes "a < 10" and "b < 10" and "digit_char a = digit_char b"
  shows "a = b"
proof -
  have cases: "n = 0 \<or> n = 1 \<or> n = 2 \<or> n = 3 \<or> n = 4 \<or> n = 5 \<or> n = 6 \<or> n = 7
                 \<or> n = 8 \<or> n = 9" if "n < 10" for n :: nat
    using that by arith
  from cases [OF assms(1)] cases [OF assms(2)] assms(3) show ?thesis
    by (elim disjE) (simp_all add: digit_char_def)
qed

lemma digit_char_not_minus: "d < 10 \<Longrightarrow> digit_char d \<noteq> CHR ''-''"
proof -
  assume "d < 10"
  then have "d = 0 \<or> d = 1 \<or> d = 2 \<or> d = 3 \<or> d = 4 \<or> d = 5 \<or> d = 6 \<or> d = 7
                 \<or> d = 8 \<or> d = 9"
    by arith
  then show ?thesis
    by (elim disjE) (simp_all add: digit_char_def)
qed

lemma str_nat_small: "n < 10 \<Longrightarrow> str_nat n = [digit_char n]"
  by (simp add: str_nat.simps)

lemma str_nat_large:
  "\<not> n < 10 \<Longrightarrow> str_nat n = str_nat (n div 10) @ [digit_char (n mod 10)]"
  by (subst str_nat.simps) simp

lemma str_nat_nonempty: "str_nat n \<noteq> []"
  by (cases "n < 10") (simp_all add: str_nat_small str_nat_large)

lemma str_nat_inj: "str_nat m = str_nat n \<Longrightarrow> m = n"
proof (induction m arbitrary: n rule: less_induct)
  case (less m)
  show ?case
  proof (cases "m < 10")
    case m_small: True
    show ?thesis
    proof (cases "n < 10")
      case True
      with m_small less.prems show ?thesis
        by (simp add: str_nat_small digit_char_inj)
    next
      case False
      with m_small less.prems str_nat_nonempty [of "n div 10"] show ?thesis
        by (simp add: str_nat_small str_nat_large)
    qed
  next
    case m_large: False
    show ?thesis
    proof (cases "n < 10")
      case True
      with m_large less.prems str_nat_nonempty [of "m div 10"] show ?thesis
        by (simp add: str_nat_small str_nat_large)
    next
      case False
      with m_large less.prems have pre: "str_nat (m div 10) = str_nat (n div 10)"
        and dig: "digit_char (m mod 10) = digit_char (n mod 10)"
        by (simp_all add: str_nat_large)
      from m_large have "m div 10 < m" by simp
      then have "m div 10 = n div 10" using pre by (rule less.IH)
      moreover from dig have "m mod 10 = n mod 10"
        by (intro digit_char_inj) simp_all
      ultimately show ?thesis
        by (metis div_mult_mod_eq)
    qed
  qed
qed

lemma hd_str_nat_not_minus: "hd (str_nat n) \<noteq> CHR ''-''"
proof (induction n rule: less_induct)
  case (less n)
  show ?case
  proof (cases "n < 10")
    case True
    then show ?thesis
      by (simp add: str_nat_small digit_char_not_minus)
  next
    case False
    then have "n div 10 < n" by simp
    then have "hd (str_nat (n div 10)) \<noteq> CHR ''-''" by (rule less.IH)
    with False str_nat_nonempty [of "n div 10"] show ?thesis
      by (simp add: str_nat_large)
  qed
qed

lemma str_int_inj: "str_int i = str_int j \<Longrightarrow> i = j"
proof -
  assume eq: "str_int i = str_int j"
  have neg_pos: False if "a < 0" "\<not> b < 0" "str_int a = str_int b" for a b
  proof -
    from that have "CHR ''-'' # str_nat (nat (- a)) = str_nat (nat b)"
      by (simp add: str_int_def)
    then have "hd (str_nat (nat b)) = CHR ''-''"
      by (metis list.sel(1))
    with hd_str_nat_not_minus show False by blast
  qed
  show ?thesis
  proof (cases "i < 0")
    case i_neg: True
    show ?thesis
    proof (cases "j < 0")
      case True
      with i_neg eq have "nat (- i) = nat (- j)"
        by (simp add: str_int_def str_nat_inj)
      with i_neg True show ?thesis by simp
    next
      case False
      with i_neg eq neg_pos show ?thesis by blast
    qed
  next
    case i_pos: False
    show ?thesis
    proof (cases "j < 0")
      case True
      with i_pos eq neg_pos [of j i] show ?thesis by simp
    next
      case False
      with i_pos eq have "nat i = nat j"
        by (simp add: str_int_def str_nat_inj)
      with i_pos False show ?thesis by simp
    qed
  qed
qed

text \<open>
  Claim C3. For every scene, what the writer emits after the preamble, the headers and
  the vertex data (18 lines per vertex) is, mesh after mesh in scene order, the decimal
  of each index of that mesh's own index list, one per line: no vertex count of an
  earlier mesh is added to any index. Different integers have different decimals, so
  the lines determine the indices.
\<close>

theorem writer_index_blocks_not_rebased:
  "drop (154 + length textures + 7 * length meshes
           + 18 * sum_list (map (\<lambda>m. length (vertices m)) meshes))
        (trueskate_lines meshes textures)
     = concat (map (\<lambda>m. map str_int (indices m)) meshes)
   \<and> inj str_int"
proof
  let ?front = "preamble_lines textures (sum_list (map (\<lambda>m. length (vertices m)) meshes))
     @ concat (map mesh_header_lines meshes)
     @ concat (map (\<lambda>m. concat (map vertex_lines (vertices m))) meshes)"
  have len: "length ?front = 154 + length textures + 7 * length meshes
           + 18 * sum_list (map (\<lambda>m. length (vertices m)) meshes)"
    by (simp add: length_preamble_lines length_header_block length_vertex_block)
  have "trueskate_lines meshes textures
          = ?front @ concat (map (\<lambda>m. map str_int (indices m)) meshes)"
    by (simp only: trueskate_lines_blocks append_assoc)
  then have "drop (length ?front) (trueskate_lines meshes textures)
          = concat (map (\<lambda>m. map str_int (indices m)) meshes)"
    by (rule drop_length_append)
  then show "drop (154 + length textures + 7 * length meshes
           + 18 * sum_list (map (\<lambda>m. length (vertices m)) meshes))
        (trueskate_lines meshes textures)
     = concat (map (\<lambda>m. map str_int (indices m)) meshes)"
    by (simp only: len)
  show "inj str_int"
    by (rule injI) (rule str_int_inj)
qed

lemma same_geometry_same_pairs:
  "map vertices ms = map vertices ms' \<Longrightarrow> map indices ms = map indices ms' \<Longrightarrow>
   map (\<lambda>m. (vertices m, indices m)) ms = map (\<lambda>m. (vertices m, indices m)) ms'"
proof (induction ms arbitrary: ms')
  case Nil
  then show ?case by simp
next
  case (Cons m ms)
  then obtain m' rest where "ms' = m' # rest" by (cases ms') auto
  with Cons show ?case by simp
qed

lemma trueskate_lines_by_geometry:
  "trueskate_lines meshes textures =
     preamble_lines textures
       (sum_list (map (\<lambda>p. length (fst p)) (map (\<lambda>m. (vertices m, indices m)) meshes)))
     @ concat (map (\<lambda>p. [str_nat (length (snd p)) @ '' #Num Indices'',
                           str_nat (length (fst p)) @ '' #Num Vertices'',
                           ''#Normals (Flags |= 0x1)'', ''1 #Flags'',
                           ''2 #Num Colour Sets'', ''2 #Num Uv Sets'', ''#Mesh''])
                   (map (\<lambda>m. (vertices m, indices m)) meshes))
     @ concat (map (\<lambda>p. concat (map vertex_lines (fst p))) (map (\<lambda>m. (vertices m, indices m)) meshes))
     @ concat (map (\<lambda>p. map str_int (snd p)) (map (\<lambda>m. (vertices m, indices m)) meshes))"
  by (simp add: trueskate_lines_blocks mesh_header_lines_fun comp_def)

text \<open>
  Claim C9. Two scenes whose meshes agree, position by position, in vertices and in
  indices (so they differ at most in \<open>material_index\<close>) give, with the same texture
  list, the same output text character for character.
\<close>

theorem writer_ignores_material_index:
  assumes "map vertices meshes = map vertices meshes'"
    and "map indices meshes = map indices meshes'"
  shows "write_trueskate_txt meshes textures = write_trueskate_txt meshes' textures"
proof -
  have "map (\<lambda>m. (vertices m, indices m)) meshes = map (\<lambda>m. (vertices m, indices m)) meshes'"
    using assms by (rule same_geometry_same_pairs)
  then have "trueskate_lines meshes textures = trueskate_lines meshes' textures"
    by (simp only: trueskate_lines_by_geometry)
  then show ?thesis
    by (simp only: write_trueskate_txt_def)
qed

theorem writer_ignores_material_index_witness:
  "write_trueskate_txt
     [\<lparr>vertices = [Vertex 1 0 0 0 1 0 0 0], indices = [0, 0, 0], material_index = 0\<rparr>,
      \<lparr>vertices = [], indices = [], material_index = 3\<rparr>] [''concrete_gray'']
   = write_trueskate_txt
     [\<lparr>vertices = [Vertex 1 0 0 0 1 0 0 0], indices = [0, 0, 0], material_index = 5\<rparr>,
      \<lparr>vertices = [], indices = [], material_index = 1\<rparr>] [''concrete_gray'']"
  by (rule writer_ignores_material_index) simp_all

section \<open>The transform stage\<close>

text \<open>
  Claim C2. For every vertex, position \<open>(px, py, pz)\<close>, angle and scale,
  \<open>transform_vertex\<close> is the four stages in this order: scale the position, rotate
  position and normal about the Y axis, translate the position, multiply the position by
  100. Written out: the normal is rotated and never scaled, \<open>v_y\<close> and \<open>v_ny\<close> are not
  touched by the rotation, UV and colour are unchanged.
\<close>

theorem transform_vertex_order:
  "transform_vertex v [''x'' \<mapsto> px, ''y'' \<mapsto> py, ''z'' \<mapsto> pz] [''y'' \<mapsto> theta] s
     = stage_unit_scale (stage_translate px py pz (stage_rotate_y theta (stage_scale s v)))
   \<and> transform_vertex v [''x'' \<mapsto> px, ''y'' \<mapsto> py, ''z'' \<mapsto> pz] [''y'' \<mapsto> theta] s
     = \<lparr>v_x = ((v_x v * s) * cos theta - (v_z v * s) * sin theta + px) * 100,
        v_y = (v_y v * s + py) * 100,
        v_z = ((v_x v * s) * sin theta + (v_z v * s) * cos theta + pz) * 100,
        v_nx = v_nx v * cos theta - v_nz v * sin theta,
        v_ny = v_ny v,
        v_nz = v_nx v * sin theta + v_nz v * cos theta,
        v_u = v_u v, v_v = v_v v,
        v_r = v_r v, v_g = v_g v, v_b = v_b v, v_a = v_a v\<rparr>"
  by (simp add: transform_vertex_def dict_get_def Let_def stage_unit_scale_def
        stage_translate_def stage_rotate_y_def stage_scale_def)

lemma rotate_back_first:
  fixes p q c s :: real
  assumes "s\<^sup>2 + c\<^sup>2 = 1"
  shows "(p * c - q * s) * c + (p * s + q * c) * s = p"
proof -
  have "(p * c - q * s) * c + (p * s + q * c) * s = p * (s\<^sup>2 + c\<^sup>2)"
    by (simp add: algebra_simps power2_eq_square)
  then show ?thesis using assms by simp
qed

lemma rotate_back_second:
  fixes p q c s :: real
  assumes "s\<^sup>2 + c\<^sup>2 = 1"
  shows "(p * s + q * c) * c - (p * c - q * s) * s = q"
proof -
  have "(p * s + q * c) * c - (p * c - q * s) * s = q * (s\<^sup>2 + c\<^sup>2)"
    by (simp add: algebra_simps power2_eq_square)
  then show ?thesis using assms by simp
qed

text \<open>
  Claim C7, as the code has it. Rotating by \<open>theta\<close> and then by \<open>- theta\<close> (scale 1,
  position 0) gives back the normal, UV and colour of the original vertex, and the
  original position multiplied by 10000: each of the two calls applies the factor 100.
  (Exact arithmetic; rounding is not modelled.)
\<close>

theorem rotate_back_applies_unit_scale_twice:
  "transform_vertex
     (transform_vertex v [''x'' \<mapsto> 0, ''y'' \<mapsto> 0, ''z'' \<mapsto> 0] [''y'' \<mapsto> theta] 1)
     [''x'' \<mapsto> 0, ''y'' \<mapsto> 0, ''z'' \<mapsto> 0] [''y'' \<mapsto> - theta] 1
   = v\<lparr>v_x := 10000 * v_x v, v_y := 10000 * v_y v, v_z := 10000 * v_z v\<rparr>"
proof -
  let ?c = "cos theta" and ?s = "sin theta"
  have unit: "?s\<^sup>2 + ?c\<^sup>2 = 1" by (rule sin_cos_squared_add)
  have px: "(p * ?c * 100 - q * ?s * 100) * ?c * 100
              + (p * ?s * 100 + q * ?c * 100) * ?s * 100 = 10000 * p" for p q :: real
  proof -
    have "(p * ?c * 100 - q * ?s * 100) * ?c * 100
              + (p * ?s * 100 + q * ?c * 100) * ?s * 100
            = 10000 * ((p * ?c - q * ?s) * ?c + (p * ?s + q * ?c) * ?s)"
      by (simp add: algebra_simps)
    then show ?thesis by (simp only: rotate_back_first [OF unit])
  qed
  have pz: "(p * ?s * 100 + q * ?c * 100) * ?c * 100
              - (p * ?c * 100 - q * ?s * 100) * ?s * 100 = 10000 * q" for p q :: real
  proof -
    have "(p * ?s * 100 + q * ?c * 100) * ?c * 100
              - (p * ?c * 100 - q * ?s * 100) * ?s * 100
            = 10000 * ((p * ?s + q * ?c) * ?c - (p * ?c - q * ?s) * ?s)"
      by (simp add: algebra_simps)
    then show ?thesis by (simp only: rotate_back_second [OF unit])
  qed
  show ?thesis
    by (cases v)
       (simp add: transform_vertex_def dict_get_def Let_def px pz
          rotate_back_first [OF unit] rotate_back_second [OF unit])
qed

text \<open>
  Claim C7 as stated fails: for the vertex at \<open>(1, 0, 0)\<close> and the angle 0, the two calls
  return the X coordinate 10000. It is 9900 away from 100 times the original, the value
  the claim gives (the factor applied once), and 9999 away from the original itself.
\<close>

theorem rotate_back_counterexample:
  "\<bar>v_x (transform_vertex
          (transform_vertex (Vertex 1 0 0 0 1 0 0 0)
             [''x'' \<mapsto> 0, ''y'' \<mapsto> 0, ''z'' \<mapsto> 0] [''y'' \<mapsto> 0] 1)
          [''x'' \<mapsto> 0, ''y'' \<mapsto> 0, ''z'' \<mapsto> 0] [''y'' \<mapsto> - 0] 1)
     - 100 * v_x (Vertex 1 0 0 0 1 0 0 0)\<bar> = 9900
   \<and> \<bar>v_x (transform_vertex
          (transform_vertex (Vertex 1 0 0 0 1 0 0 0)
             [''x'' \<mapsto> 0, ''y'' \<mapsto> 0, ''z'' \<mapsto> 0] [''y'' \<mapsto> 0] 1)
          [''x'' \<mapsto> 0, ''y'' \<mapsto> 0, ''z'' \<mapsto> 0] [''y'' \<mapsto> - 0] 1)
     - v_x (Vertex 1 0 0 0 1 0 0 0)\<bar> = 9999"
  by (simp add: transform_vertex_def dict_get_def Let_def Vertex_def)

section \<open>The generators keep the mesh invariant\<close>

lemma mesh_ok_acc_ok: "mesh_ok m \<longleftrightarrow> acc_ok (vertices m, indices m)"
  by (simp add: mesh_ok_def acc_ok_def)

lemma acc_ok_empty: "acc_ok ([], [])"
  by (simp add: acc_ok_def)

lemma list_all_bound_mono:
  "list_all (\<lambda>i. 0 \<le> i \<and> i < int n) idxs \<Longrightarrow> n \<le> n' \<Longrightarrow>
   list_all (\<lambda>i. 0 \<le> i \<and> i < int n') idxs"
  by (induction idxs) auto

lemma acc_ok_extend:
  assumes "acc_ok (verts, idxs)"
    and "length new_idxs mod 3 = 0"
    and "list_all (\<lambda>i. 0 \<le> i \<and> i < int (length verts + length new_verts)) new_idxs"
  shows "acc_ok (verts @ new_verts, idxs @ new_idxs)"
proof -
  from assms(1) have a: "length idxs mod 3 = 0"
    and b: "list_all (\<lambda>i. 0 \<le> i \<and> i < int (length verts)) idxs"
    by (simp_all add: acc_ok_def)
  from b have "list_all (\<lambda>i. 0 \<le> i \<and> i < int (length verts + length new_verts)) idxs"
    by (rule list_all_bound_mono) simp
  moreover from a assms(2) have "(length idxs + length new_idxs) mod 3 = 0"
    by presburger
  ultimately show ?thesis
    using assms(3) by (simp add: acc_ok_def)
qed

lemma foldl_acc_ok:
  assumes "\<And>acc x. x \<in> set xs \<Longrightarrow> acc_ok acc \<Longrightarrow> acc_ok (f acc x)"
    and "acc_ok acc"
  shows "acc_ok (foldl f acc xs)"
  using assms by (induction xs arbitrary: acc) simp_all

lemma box_face_step_ok:
  assumes "acc_ok acc" and "length (fst face) = 4"
  shows "acc_ok (box_face_step corners acc face)"
proof -
  obtain verts idxs where acc: "acc = (verts, idxs)" by (cases acc)
  obtain face_corners normal where face: "face = (face_corners, normal)" by (cases face)
  have "acc_ok (verts @ box_face_vertices corners face_corners normal,
          idxs @ [int (length verts), int (length verts) + 1, int (length verts) + 2,
                  int (length verts), int (length verts) + 2, int (length verts) + 3])"
    using assms acc face
    by (intro acc_ok_extend) (simp_all add: box_face_vertices_def)
  then show ?thesis
    by (simp add: box_face_step_def acc face Let_def)
qed

lemma generate_box_ok: "mesh_ok (generate_box width height depth offset_x offset_y offset_z)"
proof -
  have "acc_ok (foldl (box_face_step corners) ([], []) box_faces)" for corners
    by (rule foldl_acc_ok [OF box_face_step_ok acc_ok_empty]) (auto simp: box_faces_def)
  then show ?thesis
    by (simp add: mesh_ok_acc_ok generate_box_def Let_def)
qed

lemma generate_box_indices:
  "indices (generate_box width height depth offset_x offset_y offset_z) =
     [0, 1, 2, 0, 2, 3, 4, 5, 6, 4, 6, 7, 8, 9, 10, 8, 10, 11,
      12, 13, 14, 12, 14, 15, 16, 17, 18, 16, 18, 19, 20, 21, 22, 20, 22, 23]"
  by (simp add: generate_box_def box_faces_def box_face_step_def box_face_vertices_def Let_def)

lemma generate_box_length:
  "length (vertices (generate_box width height depth offset_x offset_y offset_z)) = 24"
  by (simp add: generate_box_def box_faces_def box_face_step_def box_face_vertices_def Let_def)

lemma mesh_ok_material [simp]: "mesh_ok (m\<lparr>material_index := k\<rparr>) = mesh_ok m"
  by (simp add: mesh_ok_def)

lemma generate_ledge_ok: "mesh_ok (generate_ledge len height depth)"
  by (simp add: generate_ledge_def Let_def generate_box_ok)

lemma generate_manual_pad_ok: "mesh_ok (generate_manual_pad len height width)"
  by (simp add: generate_manual_pad_def Let_def generate_box_ok)

lemma generate_ground_flat_ok: "mesh_ok (generate_ground_flat sz)"
  by (simp add: generate_ground_flat_def Let_def generate_box_ok)

lemma list_all_rebased:
  "list_all (\<lambda>i. 0 \<le> i \<and> i < int n) idxs \<Longrightarrow>
   list_all (\<lambda>i. 0 \<le> i \<and> i < int (base + n)) (map (\<lambda>idx. idx + int base) idxs)"
  by (induction idxs) auto

lemma acc_ok_append_mesh:
  assumes "acc_ok (verts, idxs)" and "mesh_ok m"
  shows "acc_ok (verts @ vertices m, idxs @ map (\<lambda>idx. idx + int (length verts)) (indices m))"
proof (rule acc_ok_extend [OF assms(1)])
  from assms(2) show "length (map (\<lambda>idx. idx + int (length verts)) (indices m)) mod 3 = 0"
    by (simp add: mesh_ok_def)
  from assms(2) have "list_all (\<lambda>i. 0 \<le> i \<and> i < int (length (vertices m))) (indices m)"
    by (simp add: mesh_ok_def)
  then show "list_all (\<lambda>i. 0 \<le> i \<and> i < int (length verts + length (vertices m)))
               (map (\<lambda>idx. idx + int (length verts)) (indices m))"
    by (rule list_all_rebased)
qed

lemma stairs_step_ok:
  assumes "acc_ok acc"
  shows "acc_ok (stairs_step step_height step_depth step_width acc i)"
proof -
  obtain verts idxs where acc: "acc = (verts, idxs)" by (cases acc)
  have "mesh_ok (stairs_box step_height step_depth step_width i)"
    by (simp add: stairs_box_def generate_box_ok)
  with assms acc show ?thesis
    by (simp add: stairs_step_def Let_def acc_ok_append_mesh)
qed

lemma generate_stairs_ok: "mesh_ok (generate_stairs num_steps step_height step_depth step_width)"
proof -
  have "acc_ok (foldl (stairs_step step_height step_depth step_width) ([], []) [0..<nat num_steps])"
    by (rule foldl_acc_ok [OF stairs_step_ok acc_ok_empty])
  then show ?thesis
    by (simp add: mesh_ok_acc_ok generate_stairs_def Let_def)
qed

lemma bench_leg_step_ok:
  assumes "acc_ok acc"
  shows "acc_ok (bench_leg_step acc x_offset)"
proof -
  obtain verts idxs where acc: "acc = (verts, idxs)" by (cases acc)
  with assms show ?thesis
    by (simp add: bench_leg_step_def Let_def acc_ok_append_mesh generate_box_ok)
qed

lemma generate_bench_ok: "mesh_ok generate_bench"
proof -
  have seat: "acc_ok (vertices (generate_box 2.0 0.1 0.5 0 0.5 0),
                      indices (generate_box 2.0 0.1 0.5 0 0.5 0))"
    using generate_box_ok by (simp only: mesh_ok_acc_ok)
  have "acc_ok (foldl bench_leg_step
                 (vertices (generate_box 2.0 0.1 0.5 0 0.5 0),
                  indices (generate_box 2.0 0.1 0.5 0 0.5 0)) [-0.8, 0.8])"
    by (rule foldl_acc_ok [OF bench_leg_step_ok seat])
  then show ?thesis
    by (simp add: mesh_ok_acc_ok generate_bench_def Let_def)
qed

lemma rail_bar_step_ok:
  assumes "acc_ok acc"
  shows "acc_ok (rail_bar_step len height radius segments acc i)"
proof -
  obtain verts idxs where acc: "acc = (verts, idxs)" by (cases acc)
  have "acc_ok (verts @ [a, b, c, d],
          idxs @ [int (length verts), int (length verts) + 1, int (length verts) + 3,
                  int (length verts), int (length verts) + 3, int (length verts) + 2])"
    for a b c d :: vertex
    using assms acc by (intro acc_ok_extend) simp_all
  then show ?thesis
    by (simp add: rail_bar_step_def acc Let_def)
qed

lemma rail_support_step_ok:
  assumes "acc_ok acc"
  shows "acc_ok (rail_support_step height support_radius segments sx acc i)"
proof -
  obtain verts idxs where acc: "acc = (verts, idxs)" by (cases acc)
  have "acc_ok (verts @ [a, b, c, d],
          idxs @ [int (length verts), int (length verts) + 2, int (length verts) + 3,
                  int (length verts), int (length verts) + 3, int (length verts) + 1])"
    for a b c d :: vertex
    using assms acc by (intro acc_ok_extend) simp_all
  then show ?thesis
    by (simp add: rail_support_step_def acc Let_def)
qed

lemma generate_rail_ok: "mesh_ok (generate_rail len height radius)"
proof -
  let ?bar = "foldl (rail_bar_step len height radius 8) ([], []) [0..<8]"
  have bar: "acc_ok ?bar"
    by (rule foldl_acc_ok [OF rail_bar_step_ok acc_ok_empty])
  have post: "acc_ok (foldl (rail_support_step height 0.05 8 sx) acc [0..<8])"
    if "acc_ok acc" for acc sx
    by (rule foldl_acc_ok [OF rail_support_step_ok that])
  have "acc_ok (foldl (\<lambda>acc sx. foldl (rail_support_step height 0.05 8 sx) acc [0..<8])
                 ?bar [- len / 2 + 0.5, len / 2 - 0.5])"
    by (rule foldl_acc_ok [OF post bar])
  then show ?thesis
    by (simp add: mesh_ok_acc_ok generate_rail_def Let_def)
qed

lemma pyramid_face_step_ok:
  assumes "acc_ok acc"
  shows "acc_ok (pyramid_face_step corners apex acc face)"
proof -
  obtain verts idxs where acc: "acc = (verts, idxs)" by (cases acc)
  obtain c1 c2 where face: "face = (c1, c2)" by (cases face)
  have "acc_ok (verts @ [a, b, c],
          idxs @ [int (length verts), int (length verts) + 1, int (length verts) + 2])"
    for a b c :: vertex
    using assms acc by (intro acc_ok_extend) simp_all
  then show ?thesis
    by (simp add: pyramid_face_step_def acc face Let_def)
qed

lemma generate_pyramid_ok:
  assumes "base_radius \<noteq> 0"
  shows "\<exists>m. generate_pyramid base_radius height = Inr m \<and> mesh_ok m"
proof -
  let ?corners = "pyramid_corners base_radius"
  let ?acc = "foldl (pyramid_face_step ?corners (0, height, 0)) ([], []) pyramid_faces"
  have sides: "acc_ok (fst ?acc, snd ?acc)"
    using foldl_acc_ok [OF pyramid_face_step_ok acc_ok_empty] by simp
  have "acc_ok (fst ?acc @ map f ?corners,
          snd ?acc @ [int (length (fst ?acc)), int (length (fst ?acc)) + 2,
                      int (length (fst ?acc)) + 1, int (length (fst ?acc)),
                      int (length (fst ?acc)) + 3, int (length (fst ?acc)) + 2])"
    for f :: "real \<times> real \<times> real \<Rightarrow> vertex"
    by (rule acc_ok_extend [OF sides]) (simp_all add: pyramid_corners_def)
  with assms show ?thesis
    by (simp add: generate_pyramid_def Let_def mesh_ok_acc_ok)
qed

lemma length_concat_map_const:
  assumes "\<And>x. length (f x) = k"
  shows "length (concat (map f xs)) = k * length xs"
  by (induction xs) (simp_all add: assms)

lemma list_all_concat_map:
  "list_all P (concat (map f xs)) = list_all (\<lambda>x. list_all P (f x)) xs"
  by (induction xs) simp_all

lemma list_all_upt: "list_all P [0..<n] \<longleftrightarrow> (\<forall>i<n. P i)"
  by (auto simp: list_all_iff)

lemma length_quarter_pipe_surface: "length (quarter_pipe_surface radius width segments i) = 2"
  by (simp add: quarter_pipe_surface_def Let_def)

lemma length_kicker_surface: "length (kicker_surface len height width segments i) = 2"
  by (simp add: kicker_surface_def Let_def)

lemma generate_quarter_pipe_ok:
  assumes "0 < segments" and "radius \<noteq> 0"
  shows "\<exists>m. generate_quarter_pipe radius width segments = Inr m \<and> mesh_ok m"
proof -
  define n where "n = nat segments"
  have seg: "nat (segments + 1) = Suc n" "nat segments = n"
    using assms(1) by (simp_all add: n_def nat_add_distrib)
  have surface: "length (concat (map (quarter_pipe_surface radius width segments) xs))
                   = 2 * length xs" for xs
    by (rule length_concat_map_const) (rule length_quarter_pipe_surface)
  from assms show ?thesis
    unfolding generate_quarter_pipe_def Let_def mesh_ok_def seg
    by (simp add: surface list_all_concat_map list_all_upt
          length_concat_map_const [where k = 6] length_concat_map_const [where k = 3])
qed

lemma generate_kicker_ok: "mesh_ok (generate_kicker len height width)"
proof -
  have surface: "length (concat (map (kicker_surface len height width 8) xs))
                   = 2 * length xs" for xs
    by (rule length_concat_map_const) (rule length_kicker_surface)
  show ?thesis
    unfolding generate_kicker_def Let_def mesh_ok_def
    by (simp add: surface list_all_concat_map list_all_upt
          length_concat_map_const [where k = 6])
qed

lemma generate_slope_ok: "mesh_ok (generate_slope len height width)"
  by (simp add: generate_slope_def Let_def mesh_ok_def)

lemma registry_meshes_ok:
  "list_all (\<lambda>entry. case snd entry of Inl e \<Rightarrow> False | Inr m \<Rightarrow> mesh_ok m) OBJECT_GENERATORS"
proof -
  have qp: "case generate_quarter_pipe 3 6 12 of Inl e \<Rightarrow> False | Inr m \<Rightarrow> mesh_ok m"
    using generate_quarter_pipe_ok [of 12 3 6] by auto
  have py: "case generate_pyramid 3 2 of Inl e \<Rightarrow> False | Inr m \<Rightarrow> mesh_ok m"
    using generate_pyramid_ok [of 3 2] by auto
  show ?thesis
    unfolding OBJECT_GENERATORS_def
    by (simp add: qp py generate_ground_flat_ok generate_slope_ok generate_kicker_ok
          generate_rail_ok generate_ledge_ok generate_manual_pad_ok generate_stairs_ok
          generate_bench_ok generate_box_ok)
qed

text \<open>
  Claim C4. Every generator of the catalog returns a mesh whose index list has a length
  that is a multiple of 3 and whose indices are all at least 0 and below the number of
  its vertices: the box, the quarter pipe (positive radius and segment count), the
  pyramid (positive base radius), the rail, the stairs, the ledge, the kicker, the
  manual pad, the bench, the flat ground and the slope, for every value of their other
  parameters, and with them every entry of the registry.
\<close>

theorem generators_mesh_ok:
  assumes "0 < radius" and "0 < segments" and "0 < base_radius"
  shows "mesh_ok (generate_box width height depth offset_x offset_y offset_z)
       \<and> (\<exists>m. generate_quarter_pipe radius qp_width segments = Inr m \<and> mesh_ok m)
       \<and> (\<exists>m. generate_pyramid base_radius py_height = Inr m \<and> mesh_ok m)
       \<and> mesh_ok (generate_rail rail_length rail_height rail_radius)
       \<and> mesh_ok (generate_stairs num_steps step_height step_depth step_width)
       \<and> mesh_ok (generate_ledge ledge_length ledge_height ledge_depth)
       \<and> mesh_ok (generate_kicker kicker_length kicker_height kicker_width)
       \<and> mesh_ok (generate_manual_pad pad_length pad_height pad_width)
       \<and> mesh_ok generate_bench
       \<and> mesh_ok (generate_ground_flat sz)
       \<and> mesh_ok (generate_slope slope_length slope_height slope_width)
       \<and> list_all (\<lambda>entry. case snd entry of Inl e \<Rightarrow> False | Inr m \<Rightarrow> mesh_ok m)
            OBJECT_GENERATORS"
proof -
  from assms have "radius \<noteq> 0" and "base_radius \<noteq> 0" by simp_all
  with assms(2) show ?thesis
    by (simp only: generate_box_ok generate_quarter_pipe_ok generate_pyramid_ok generate_rail_ok
          generate_stairs_ok generate_ledge_ok generate_kicker_ok generate_manual_pad_ok
          generate_bench_ok generate_ground_flat_ok generate_slope_ok registry_meshes_ok
          simp_thms)
qed

theorem generators_mesh_ok_witness:
  "mesh_ok (generate_box 1 2 3 0 0 0)
       \<and> (\<exists>m. generate_quarter_pipe 3 6 12 = Inr m \<and> mesh_ok m)
       \<and> (\<exists>m. generate_pyramid 3 2 = Inr m \<and> mesh_ok m)
       \<and> mesh_ok (generate_rail 6 0.8 0.08)
       \<and> mesh_ok (generate_stairs 3 0.4 1 3)
       \<and> mesh_ok (generate_ledge 5 0.6 0.8)
       \<and> mesh_ok (generate_kicker 2 1.5 3)
       \<and> mesh_ok (generate_manual_pad 4 0.3 2)
       \<and> mesh_ok generate_bench
       \<and> mesh_ok (generate_ground_flat 10)
       \<and> mesh_ok (generate_slope 5 2 5)
       \<and> list_all (\<lambda>entry. case snd entry of Inl e \<Rightarrow> False | Inr m \<Rightarrow> mesh_ok m)
            OBJECT_GENERATORS"
proof -
  have "(0::real) < 3" and "(0::int) < 12" and "(0::real) < 3" by simp_all
  then show ?thesis
    by (rule generators_mesh_ok)
qed

section \<open>The stairs are a rebased concatenation of boxes\<close>

lemma foldl_rebase_concat:
  "foldl (\<lambda>acc i. (fst acc @ vertices (b i),
                      snd acc @ map (\<lambda>idx. idx + int (length (fst acc))) (indices (b i))))
         (verts, idxs) xs
     = (verts @ fst (concat_rebased (length verts) (map b xs)),
        idxs @ snd (concat_rebased (length verts) (map b xs)))"
proof (induction xs arbitrary: verts idxs)
  case Nil
  show ?case by simp
next
  case (Cons x xs)
  show ?case
    by (simp add: Cons.IH Let_def)
qed

lemma stairs_step_unfold:
  "stairs_step step_height step_depth step_width =
     (\<lambda>acc i. (fst acc @ vertices (stairs_box step_height step_depth step_width i),
                 snd acc @ map (\<lambda>idx. idx + int (length (fst acc)))
                               (indices (stairs_box step_height step_depth step_width i))))"
  by (intro ext) (simp add: stairs_step_def Let_def split: prod.splits)

lemma length_concat_rebased_boxes:
  "length (fst (concat_rebased k (map (\<lambda>i. generate_box (w i) (h i) (d i) (ox i) (oy i) (oz i)) xs)))
     = 24 * length xs"
  by (induction xs arbitrary: k) (simp_all add: Let_def generate_box_length)

text \<open>
  Claim C6. The stairs generator returns the concatenation, with index rebasing by the
  running vertex count, of the boxes of the steps \<open>0, ..., N - 1\<close>: box \<open>i\<close> has the
  dimensions (step_width, step_height, step_depth), the vertical offset
  \<open>step_height * (i + 0.5)\<close> and the depth offset \<open>- step_depth * i\<close>. Each box has
  24 vertices. (This holds for every step count and all dimensions; a step count
  below 1 gives the empty mesh.)
\<close>

theorem generate_stairs_concatenates_boxes:
  "generate_stairs num_steps step_height step_depth step_width =
     \<lparr>vertices =
        fst (concat_rebased 0
               (map (\<lambda>i. generate_box step_width step_height step_depth
                              0 (step_height * (real i + 0.5)) (- step_depth * real i))
                    [0..<nat num_steps])),
      indices =
        snd (concat_rebased 0
               (map (\<lambda>i. generate_box step_width step_height step_depth
                              0 (step_height * (real i + 0.5)) (- step_depth * real i))
                    [0..<nat num_steps])),
      material_index = 1\<rparr>
   \<and> length (vertices (generate_stairs num_steps step_height step_depth step_width))
       = 24 * nat num_steps"
proof -
  have box: "stairs_box step_height step_depth step_width =
      (\<lambda>i. generate_box step_width step_height step_depth
               0 (step_height * (real i + 0.5)) (- step_depth * real i))"
    by (intro ext) (simp add: stairs_box_def)
  have eq: "generate_stairs num_steps step_height step_depth step_width =
     \<lparr>vertices = fst (concat_rebased 0 (map (stairs_box step_height step_depth step_width)
                                           [0..<nat num_steps])),
      indices = snd (concat_rebased 0 (map (stairs_box step_height step_depth step_width)
                                           [0..<nat num_steps])),
      material_index = 1\<rparr>"
    unfolding generate_stairs_def Let_def stairs_step_unfold
    by (simp add: foldl_rebase_concat)
  have len: "length (vertices (generate_stairs num_steps step_height step_depth step_width))
       = 24 * nat num_steps"
    unfolding eq box by (simp add: length_concat_rebased_boxes)
  from eq len show ?thesis
    unfolding box by simp
qed

section \<open>The scene assembler\<close>

lemma assemble_object_unknown:
  assumes "o_type d = Some t" and "map_of OBJECT_GENERATORS t = None"
  shows "assemble_object d (scene, console) = ((scene, console @ [UnknownObjectType t]), None)"
  using assms by (simp add: assemble_object_def obj_type_of_def Let_def)

text \<open>The console is only ever appended to, and nothing else depends on it.\<close>

lemma assemble_object_console:
  "assemble_object d (scene, console) =
     ((fst (fst (assemble_object d (scene, []))),
       console @ snd (fst (assemble_object d (scene, [])))),
      snd (assemble_object d (scene, [])))"
  by (simp add: assemble_object_def Let_def split: option.splits sum.splits)

lemma assemble_objects_console:
  "assemble_objects objs (scene, console) =
     ((fst (fst (assemble_objects objs (scene, []))),
       console @ snd (fst (assemble_objects objs (scene, [])))),
      snd (assemble_objects objs (scene, [])))"
proof (induction objs arbitrary: scene console)
  case Nil
  show ?case by simp
next
  case (Cons d objs)
  obtain scene' out exc where step: "assemble_object d (scene, []) = ((scene', out), exc)"
    by (metis surj_pair)
  then have step': "assemble_object d (scene, console) = ((scene', console @ out), exc)"
    by (subst assemble_object_console) simp
  show ?case
  proof (cases exc)
    case None
    show ?thesis
      using Cons.IH [of scene' "console @ out"] Cons.IH [of scene' out]
      by (simp add: step step' None)
  next
    case (Some e)
    then show ?thesis
      by (simp add: step step')
  qed
qed

lemma assemble_objects_append:
  "assemble_objects (xs @ ys) st =
     (case assemble_objects xs st of
        (st', Some e) \<Rightarrow> (st', Some e)
      | (st', None) \<Rightarrow> assemble_objects ys st')"
  by (induction xs arbitrary: st) (simp_all split: prod.splits option.splits)

lemma assemble_objects_skip:
  assumes "o_type d = Some t" and "map_of OBJECT_GENERATORS t = None"
  shows "assemble_objects (d # ys) (scene, console)
           = assemble_objects ys (scene, console @ [UnknownObjectType t])"
  by (simp add: assemble_object_unknown [OF assms])

lemma assemble_scene_console:
  "fst (fst (assemble_scene objs console)) = fst (fst (assemble_scene objs []))"
  "snd (assemble_scene objs console) = snd (assemble_scene objs [])"
  unfolding assemble_scene_def Let_def
  by (subst assemble_objects_console, simp)+

lemma export_geometry_by_scene:
  "map_sum id geometry_txt (export_skatepark \<lparr>d_name = name, d_objects = Some objs\<rparr>) =
     (case snd (assemble_scene objs []) of
        Some e \<Rightarrow> Inl e
      | None \<Rightarrow> Inr (write_trueskate_txt (fst (fst (assemble_scene objs []))) [''concrete_gray'']))"
proof -
  let ?console = "[Exporting (case name of None \<Rightarrow> ''My Skatepark'' | Some n \<Rightarrow> n) (length objs)]"
  obtain scene out exc where r: "assemble_scene objs ?console = ((scene, out), exc)"
    by (metis surj_pair)
  have "fst (fst (assemble_scene objs [])) = scene" and "snd (assemble_scene objs []) = exc"
    using assemble_scene_console [of objs ?console] r by simp_all
  then show ?thesis
    by (simp add: export_skatepark_def Let_def r split: option.splits)
qed

lemma assemble_scene_skip:
  assumes "o_type d = Some t" and "map_of OBJECT_GENERATORS t = None"
  shows "fst (fst (assemble_scene (xs @ d # ys) console))
           = fst (fst (assemble_scene (xs @ ys) console))"
    and "snd (assemble_scene (xs @ d # ys) console) = snd (assemble_scene (xs @ ys) console)"
    and "snd (assemble_scene xs console) = None \<Longrightarrow>
         \<exists>after. snd (fst (assemble_scene (xs @ ys) console))
                    = snd (fst (assemble_scene xs console)) @ after
                \<and> snd (fst (assemble_scene (xs @ d # ys) console))
                    = snd (fst (assemble_scene xs console)) @ [UnknownObjectType t] @ after"
proof -
  let ?st0 = "([ground_mesh], console)"
  obtain sc1 co1 e1 where xs: "assemble_objects xs ?st0 = ((sc1, co1), e1)"
    by (metis surj_pair)
  obtain sc2 out e2 where ys: "assemble_objects ys (sc1, []) = ((sc2, out), e2)"
    by (metis surj_pair)
  have without: "assemble_objects ys (sc1, co1) = ((sc2, co1 @ out), e2)"
    by (subst assemble_objects_console) (simp add: ys)
  have with_d: "assemble_objects ys (sc1, co1 @ [UnknownObjectType t])
                  = ((sc2, co1 @ [UnknownObjectType t] @ out), e2)"
    by (subst assemble_objects_console) (simp add: ys)
  note skip = assemble_object_unknown [OF assms]
  show "fst (fst (assemble_scene (xs @ d # ys) console))
           = fst (fst (assemble_scene (xs @ ys) console))"
    by (cases e1) (simp_all add: assemble_scene_def assemble_objects_append xs skip without with_d)
  show "snd (assemble_scene (xs @ d # ys) console) = snd (assemble_scene (xs @ ys) console)"
    by (cases e1) (simp_all add: assemble_scene_def assemble_objects_append xs skip without with_d)
  show "\<exists>after. snd (fst (assemble_scene (xs @ ys) console))
                    = snd (fst (assemble_scene xs console)) @ after
                \<and> snd (fst (assemble_scene (xs @ d # ys) console))
                    = snd (fst (assemble_scene xs console)) @ [UnknownObjectType t] @ after"
    if "snd (assemble_scene xs console) = None"
  proof -
    from that have "e1 = None"
      by (simp add: assemble_scene_def xs)
    then show ?thesis
      by (simp add: assemble_scene_def assemble_objects_append xs skip without with_d)
  qed
qed

lemma export_returned_by_geometry:
  assumes "map_sum id geometry_txt (export_skatepark \<lparr>d_name = name, d_objects = objs\<rparr>)
             = map_sum id geometry_txt (export_skatepark \<lparr>d_name = name, d_objects = objs'\<rparr>)"
  shows "export_skatepark_returned \<lparr>d_name = name, d_objects = objs\<rparr> output_dir
           = export_skatepark_returned \<lparr>d_name = name, d_objects = objs'\<rparr> output_dir"
  using assms
  by (cases "export_skatepark \<lparr>d_name = name, d_objects = objs\<rparr>";
      cases "export_skatepark \<lparr>d_name = name, d_objects = objs'\<rparr>")
     (simp_all add: export_skatepark_returned_def Let_def)

lemma safe_name_default: "safe_name_of ''My Skatepark'' = ''my_skatepark''"
  by (simp add: safe_name_of_def ascii_lower_def)

text \<open>
  Claim C5, as the code has it. Let a descriptor \<open>d\<close> carry a type that is not a key of
  the registry. Its round of the loop leaves the scene as it was, raises nothing, and
  reports the skip by printing one console line, \<^verbatim>\<open>  ! Unknown object type: t\<close>
  (the console entry \<open>UnknownObjectType t\<close>). For every object list with \<open>d\<close> in it, the
  scene and the exception status are those of the list without \<open>d\<close>; when the objects
  before \<open>d\<close> raise nothing, the console is that of the list without \<open>d\<close> with the one
  line put in after theirs; the export ends the same way, with the same geometry text or
  the same exception; and the value returned to the caller, the output path, is the same
  as without \<open>d\<close>: no diagnostic list is handed to the caller.
\<close>

theorem unknown_type_is_skipped_and_reported:
  assumes "o_type d = Some t" and "map_of OBJECT_GENERATORS t = None"
  shows "assemble_object d (scene, console) = ((scene, console @ [UnknownObjectType t]), None)
       \<and> fst (fst (assemble_scene (xs @ d # ys) console))
           = fst (fst (assemble_scene (xs @ ys) console))
       \<and> snd (assemble_scene (xs @ d # ys) console) = snd (assemble_scene (xs @ ys) console)
       \<and> (snd (assemble_scene xs console) = None \<longrightarrow>
            (\<exists>after. snd (fst (assemble_scene (xs @ ys) console))
                        = snd (fst (assemble_scene xs console)) @ after
                    \<and> snd (fst (assemble_scene (xs @ d # ys) console))
                        = snd (fst (assemble_scene xs console)) @ [UnknownObjectType t] @ after))
       \<and> map_sum id geometry_txt
            (export_skatepark \<lparr>d_name = name, d_objects = Some (xs @ d # ys)\<rparr>)
           = map_sum id geometry_txt
               (export_skatepark \<lparr>d_name = name, d_objects = Some (xs @ ys)\<rparr>)
       \<and> export_skatepark_returned \<lparr>d_name = name, d_objects = Some (xs @ d # ys)\<rparr> output_dir
           = export_skatepark_returned \<lparr>d_name = name, d_objects = Some (xs @ ys)\<rparr> output_dir"
proof (intro conjI impI)
  show "assemble_object d (scene, console) = ((scene, console @ [UnknownObjectType t]), None)"
    by (rule assemble_object_unknown [OF assms])
  show "fst (fst (assemble_scene (xs @ d # ys) console))
           = fst (fst (assemble_scene (xs @ ys) console))"
    by (rule assemble_scene_skip(1) [OF assms])
  show "snd (assemble_scene (xs @ d # ys) console) = snd (assemble_scene (xs @ ys) console)"
    by (rule assemble_scene_skip(2) [OF assms])
  show "\<exists>after. snd (fst (assemble_scene (xs @ ys) console))
                        = snd (fst (assemble_scene xs console)) @ after
                    \<and> snd (fst (assemble_scene (xs @ d # ys) console))
                        = snd (fst (assemble_scene xs console)) @ [UnknownObjectType t] @ after"
    if "snd (assemble_scene xs console) = None"
    by (rule assemble_scene_skip(3) [OF assms that])
  show "map_sum id geometry_txt
            (export_skatepark \<lparr>d_name = name, d_objects = Some (xs @ d # ys)\<rparr>)
           = map_sum id geometry_txt
               (export_skatepark \<lparr>d_name = name, d_objects = Some (xs @ ys)\<rparr>)"
    by (simp only: export_geometry_by_scene assemble_scene_skip(1,2) [OF assms])
  then show "export_skatepark_returned \<lparr>d_name = name, d_objects = Some (xs @ d # ys)\<rparr> output_dir
           = export_skatepark_returned \<lparr>d_name = name, d_objects = Some (xs @ ys)\<rparr> output_dir"
    by (rule export_returned_by_geometry)
qed

theorem unknown_type_is_skipped_and_reported_witness:
  "assemble_object
      \<lparr>o_type = Some ''not-a-real-type'', o_position = None, o_rotation = None, o_scale = None\<rparr>
      ([ground_mesh], [])
     = (([ground_mesh], [UnknownObjectType ''not-a-real-type'']), None)
   \<and> fst (fst (assemble_scene
        [\<lparr>o_type = Some ''not-a-real-type'', o_position = None, o_rotation = None,
           o_scale = None\<rparr>] []))
       = fst (fst (assemble_scene [] []))
   \<and> snd (assemble_scene
        [\<lparr>o_type = Some ''not-a-real-type'', o_position = None, o_rotation = None,
           o_scale = None\<rparr>] [])
       = snd (assemble_scene [] [])
   \<and> snd (fst (assemble_scene
        [\<lparr>o_type = Some ''not-a-real-type'', o_position = None, o_rotation = None,
           o_scale = None\<rparr>] []))
       = [UnknownObjectType ''not-a-real-type'']
   \<and> map_sum id geometry_txt
        (export_skatepark \<lparr>d_name = None, d_objects = Some
           [\<lparr>o_type = Some ''not-a-real-type'', o_position = None, o_rotation = None,
              o_scale = None\<rparr>]\<rparr>)
       = map_sum id geometry_txt (export_skatepark \<lparr>d_name = None, d_objects = Some []\<rparr>)
   \<and> export_skatepark_returned
        \<lparr>d_name = None, d_objects = Some
           [\<lparr>o_type = Some ''not-a-real-type'', o_position = None, o_rotation = None,
              o_scale = None\<rparr>]\<rparr> ''./output''
       = export_skatepark_returned \<lparr>d_name = None, d_objects = Some []\<rparr> ''./output''"
proof -
  let ?d = "\<lparr>o_type = Some ''not-a-real-type'', o_position = None, o_rotation = None,
             o_scale = None\<rparr>"
  have given: "o_type ?d = Some ''not-a-real-type''"
    by simp
  have miss: "map_of OBJECT_GENERATORS ''not-a-real-type'' = None"
    by (simp add: OBJECT_GENERATORS_def)
  have start: "assemble_scene [] [] = (([ground_mesh], []), None)"
    by (simp add: assemble_scene_def)
  show ?thesis
    using unknown_type_is_skipped_and_reported
            [OF given miss, of "[ground_mesh]" "[]" "[]" "[]" None "''./output''"]
    by (simp add: start)
qed

text \<open>
  Claim C5 as stated fails in its reporting part: the skip is not reported to the caller
  as a diagnostic list entry. For the single object \<^verbatim>\<open>{type: "not-a-real-type"}\<close>
  (default name, output directory \<^verbatim>\<open>./output\<close>) the caller is returned the path
  \<^verbatim>\<open>./output/my_skatepark\<close> and nothing else, exactly what it is returned for the
  empty object list; the skip shows only on the console.
\<close>

theorem unknown_type_report_counterexample:
  "export_skatepark_returned
     \<lparr>d_name = None,
      d_objects = Some [\<lparr>o_type = Some ''not-a-real-type'', o_position = None,
                         o_rotation = None, o_scale = None\<rparr>]\<rparr> ''./output''
     = Inr ''./output/my_skatepark''
   \<and> export_skatepark_returned \<lparr>d_name = None, d_objects = Some []\<rparr> ''./output''
     = Inr ''./output/my_skatepark''
   \<and> map_sum id console_out
       (export_skatepark
          \<lparr>d_name = None,
           d_objects = Some [\<lparr>o_type = Some ''not-a-real-type'', o_position = None,
                              o_rotation = None, o_scale = None\<rparr>]\<rparr>)
     = Inr [Exporting ''My Skatepark'' 1, UnknownObjectType ''not-a-real-type'']"
proof -
  let ?d = "\<lparr>o_type = Some ''not-a-real-type'', o_position = None, o_rotation = None,
             o_scale = None\<rparr>"
  have given: "o_type ?d = Some ''not-a-real-type''"
    by simp
  have miss: "map_of OBJECT_GENERATORS ''not-a-real-type'' = None"
    by (simp add: OBJECT_GENERATORS_def)
  have run: "export_skatepark \<lparr>d_name = None, d_objects = Some [?d]\<rparr>
      = Inr \<lparr>geometry_txt = write_trueskate_txt [ground_mesh] [''concrete_gray''],
             console_out = [Exporting ''My Skatepark'' 1, UnknownObjectType ''not-a-real-type'']\<rparr>"
    by (simp add: export_skatepark_def assemble_scene_def
          assemble_object_unknown [OF given miss])
  have empty: "export_skatepark \<lparr>d_name = None, d_objects = Some []\<rparr>
      = Inr \<lparr>geometry_txt = write_trueskate_txt [ground_mesh] [''concrete_gray''],
             console_out = [Exporting ''My Skatepark'' 0]\<rparr>"
    by (simp add: export_skatepark_def assemble_scene_def)
  have path: "os_path_join ''./output'' ''my_skatepark'' = ''./output/my_skatepark''"
    by (simp add: os_path_join_def)
  show ?thesis
    by (simp add: export_skatepark_returned_def run empty safe_name_default path)
qed

lemma registry_ground_flat:
  "map_of OBJECT_GENERATORS ''ground-flat'' = Some (Inr (generate_ground_flat 10))"
  by (simp add: OBJECT_GENERATORS_def)

lemma registry_ledge:
  "map_of OBJECT_GENERATORS ''ledge'' = Some (Inr (generate_ledge 5 0.6 0.8))"
  by (simp add: OBJECT_GENERATORS_def)

lemma assemble_object_hit:
  assumes "map_of OBJECT_GENERATORS (obj_type_of d) = Some (Inr m)"
  shows "assemble_object d (scene, console) =
           ((scene @ [placed_mesh m (obj_pos d) (obj_rot d) (obj_scale d)],
             (case progress_line (obj_type_of d) (obj_pos d) of
                Inl e \<Rightarrow> console | Inr line \<Rightarrow> console @ [line])),
            (case progress_line (obj_type_of d) (obj_pos d) of
                Inl e \<Rightarrow> Some e | Inr line \<Rightarrow> None))"
  using assms by (simp add: assemble_object_def Let_def split: sum.splits)

lemma progress_line_cases:
  "(\<exists>e. progress_line t pos = Inl e) \<or> (\<exists>px py pz. progress_line t pos = Inr (Placed t px py pz))"
  by (simp add: progress_line_def split: option.splits)

lemma assemble_objects_grows:
  "\<exists>more. fst (fst (assemble_objects objs (scene, console))) = scene @ more"
proof (induction objs arbitrary: scene console)
  case Nil
  show ?case by simp
next
  case (Cons d objs)
  obtain scene' console' exc where step: "assemble_object d (scene, console) = ((scene', console'), exc)"
    by (metis surj_pair)
  have grow: "\<exists>more. scene' = scene @ more"
    using step by (auto simp: assemble_object_def Let_def split: option.splits sum.splits)
  show ?case
  proof (cases exc)
    case None
    from Cons.IH [of scene' console'] grow show ?thesis
      by (auto simp: step None)
  next
    case (Some e)
    with grow show ?thesis
      by (simp add: step)
  qed
qed

text \<open>
  Claim C10. A descriptor with no type is handled exactly as the same descriptor with
  the type \<^verbatim>\<open>ground-flat\<close>: its round of the loop appends to the scene the mesh of
  \<^verbatim>\<open>generate_ground_flat\<close> with its default size 10, transformed by the descriptor's
  placement, and writes no \<open>UnknownObjectType\<close> entry; the console gets the progress
  line, or the progress line raises \<^verbatim>\<open>KeyError\<close> after the mesh has been
  appended, when the position lacks a coordinate. With such a descriptor first in the
  list, the scene starts with the ground plane of size 50 and this second mesh.
\<close>

theorem missing_type_defaults_to_ground_flat:
  assumes "o_type d = None"
  shows "assemble_object d st = assemble_object (d\<lparr>o_type := Some ''ground-flat''\<rparr>) st
       \<and> fst (fst (assemble_object d (scene, console)))
           = scene @ [placed_mesh (generate_ground_flat 10) (obj_pos d) (obj_rot d) (obj_scale d)]
       \<and> snd (fst (assemble_object d (scene, console)))
           = (case progress_line ''ground-flat'' (obj_pos d) of
                Inl e \<Rightarrow> console | Inr line \<Rightarrow> console @ [line])
       \<and> snd (assemble_object d (scene, console))
           = (case progress_line ''ground-flat'' (obj_pos d) of
                Inl e \<Rightarrow> Some e | Inr line \<Rightarrow> None)
       \<and> (\<forall>t. UnknownObjectType t \<notin> set (snd (fst (assemble_object d (scene, [])))))
       \<and> take 2 (fst (fst (assemble_scene (d # rest) console)))
           = [ground_mesh,
              placed_mesh (generate_ground_flat 10) (obj_pos d) (obj_rot d) (obj_scale d)]
       \<and> ground_mesh
           = placed_mesh (generate_ground_flat 50) [''x'' \<mapsto> 0, ''y'' \<mapsto> -0.25, ''z'' \<mapsto> 0]
               [''y'' \<mapsto> 0] 1"
proof -
  from assms have ty: "obj_type_of d = ''ground-flat''"
    by (simp add: obj_type_of_def)
  have hit: "map_of OBJECT_GENERATORS (obj_type_of d) = Some (Inr (generate_ground_flat 10))"
    by (simp only: ty registry_ground_flat)
  note step = assemble_object_hit [OF hit, unfolded ty]
  have same: "assemble_object d st = assemble_object (d\<lparr>o_type := Some ''ground-flat''\<rparr>) st"
    using assms
    by (simp add: assemble_object_def obj_type_of_def obj_pos_def obj_rot_def obj_scale_def)
  have quiet: "UnknownObjectType t \<notin> set (snd (fst (assemble_object d (scene, []))))" for t
    using progress_line_cases [of "''ground-flat''" "obj_pos d"]
    by (auto simp: step)
  let ?second = "placed_mesh (generate_ground_flat 10) (obj_pos d) (obj_rot d) (obj_scale d)"
  have scene: "take 2 (fst (fst (assemble_scene (d # rest) console))) = [ground_mesh, ?second]"
  proof (cases "progress_line ''ground-flat'' (obj_pos d)")
    case (Inl e)
    then show ?thesis
      by (simp add: assemble_scene_def step)
  next
    case (Inr line)
    obtain more where
      "fst (fst (assemble_objects rest ([ground_mesh, ?second], console @ [line])))
         = [ground_mesh, ?second] @ more"
      using assemble_objects_grows by blast
    with Inr show ?thesis
      by (simp add: assemble_scene_def step)
  qed
  have ground: "ground_mesh
           = placed_mesh (generate_ground_flat 50) [''x'' \<mapsto> 0, ''y'' \<mapsto> -0.25, ''z'' \<mapsto> 0]
               [''y'' \<mapsto> 0] 1"
    by (simp add: ground_mesh_def placed_mesh_def generate_ground_flat_def Let_def)
  from same quiet scene ground show ?thesis
    by (simp add: step)
qed

theorem missing_type_defaults_to_ground_flat_witness:
  "assemble_object
     \<lparr>o_type = None, o_position = Some [''x'' \<mapsto> 1, ''y'' \<mapsto> 0, ''z'' \<mapsto> 2],
      o_rotation = None, o_scale = Some 2\<rparr> ([ground_mesh], [])
     = (([ground_mesh,
          placed_mesh (generate_ground_flat 10) [''x'' \<mapsto> 1, ''y'' \<mapsto> 0, ''z'' \<mapsto> 2]
            [''y'' \<mapsto> 0] 2],
         [Placed ''ground-flat'' 1 0 2]), None)"
proof -
  let ?d = "\<lparr>o_type = None, o_position = Some [''x'' \<mapsto> 1, ''y'' \<mapsto> 0, ''z'' \<mapsto> 2],
             o_rotation = None, o_scale = Some 2\<rparr>"
  have absent: "o_type ?d = None"
    by simp
  have line: "progress_line ''ground-flat'' [''x'' \<mapsto> 1, ''y'' \<mapsto> 0, ''z'' \<mapsto> 2]
                = Inr (Placed ''ground-flat'' 1 0 2)"
    by (simp add: progress_line_def)
  show ?thesis
    using missing_type_defaults_to_ground_flat
            [OF absent, of "([ground_mesh], [])" "[ground_mesh]" "[]" "[]", THEN conjunct2]
    by (simp add: prod_eq_iff obj_pos_def obj_rot_def obj_scale_def line)
qed

text \<open>
  Claim C8 fails on a ledge whose position dictionary lacks a coordinate: for the
  object \<^verbatim>\<open>{type: "ledge", position: {x: 1}}\<close> the progress line raises
  \<^verbatim>\<open>KeyError: 'y'\<close> and the export ends before the geometry file is written.
\<close>

theorem export_ledge_partial_position_raises:
  "export_skatepark
     \<lparr>d_name = None,
      d_objects = Some [\<lparr>o_type = Some ''ledge'', o_position = Some [''x'' \<mapsto> 1],
                         o_rotation = None, o_scale = None\<rparr>]\<rparr>
     = Inl (KeyError ''y'')"
proof -
  let ?d = "\<lparr>o_type = Some ''ledge'', o_position = Some [''x'' \<mapsto> 1],
             o_rotation = None, o_scale = None\<rparr>"
  have ty: "obj_type_of ?d = ''ledge''"
    by (simp add: obj_type_of_def)
  have hit: "map_of OBJECT_GENERATORS (obj_type_of ?d) = Some (Inr (generate_ledge 5 0.6 0.8))"
    by (simp only: ty registry_ledge)
  have line: "progress_line ''ledge'' (obj_pos ?d) = Inl (KeyError ''y'')"
    by (simp add: progress_line_def obj_pos_def)
  show ?thesis
    by (simp add: export_skatepark_def assemble_scene_def assemble_object_hit [OF hit] ty line)
qed

lemma length_ground_mesh: "length (vertices ground_mesh) = 24"
  by (simp add: ground_mesh_def Let_def generate_ground_flat_def generate_box_length)

lemma str_nat_48: "str_nat 48 = ''48''"
  by (simp add: str_nat.simps digit_char_def)

text \<open>
  With all three coordinates present (or no position at all) the export of a single ledge
  succeeds: the scene is the ground plane and the placed ledge, and the first 155 lines of
  the file are the fixed header, the six materials of the table and the vertex count 48,
  the 24 vertices of the ground plane plus the 24 of the ledge.
\<close>

lemma export_ledge_full_position:
  assumes "o_type d = Some ''ledge''"
    and "obj_pos d ''x'' = Some px" and "obj_pos d ''y'' = Some py" and "obj_pos d ''z'' = Some pz"
  shows "export_skatepark \<lparr>d_name = name, d_objects = Some [d]\<rparr> =
           Inr \<lparr>geometry_txt =
                  write_trueskate_txt
                    [ground_mesh,
                     placed_mesh (generate_ledge 5 0.6 0.8) (obj_pos d) (obj_rot d) (obj_scale d)]
                    [''concrete_gray''],
                console_out =
                  [Exporting (case name of None \<Rightarrow> ''My Skatepark'' | Some n \<Rightarrow> n) 1,
                   Placed ''ledge'' px py pz]\<rparr>"
proof -
  from assms(1) have ty: "obj_type_of d = ''ledge''"
    by (simp add: obj_type_of_def)
  have hit: "map_of OBJECT_GENERATORS (obj_type_of d) = Some (Inr (generate_ledge 5 0.6 0.8))"
    by (simp only: ty registry_ledge)
  have line: "progress_line ''ledge'' (obj_pos d) = Inr (Placed ''ledge'' px py pz)"
    by (simp add: progress_line_def assms)
  show ?thesis
    by (simp add: export_skatepark_def assemble_scene_def assemble_object_hit [OF hit] ty line)
qed

lemma ledge_scene_vertex_count_line:
  "take 155 (trueskate_lines [ground_mesh, placed_mesh (generate_ledge a b c) p r s]
                             [''concrete_gray''])
     = [''84'', ''65'', ''83'', ''75'', ''1003 #Version'', ''<VIS '', ''17'',
        ''1 #Num Textures'', ''concrete_gray'', ''6 #Num Materials'']
       @ concat (map material_lines material_colors)
       @ [''48 #Num Vertices'']"
proof -
  have ledge: "length (vertices (placed_mesh (generate_ledge a b c) p r s)) = 24"
    by (simp add: placed_mesh_def Let_def generate_ledge_def generate_box_length)
  have one: "str_nat (Suc 0) = ''1''"
    by (simp add: str_nat.simps digit_char_def)
  show ?thesis
    by (simp add: trueskate_lines_blocks preamble_lines_def length_material_table
          length_ground_mesh ledge str_nat_48 one)
qed

end
